theory Spec2Isabelle
  imports Main "HOL-Library.Char_ord" "HOL-Library.List_Lexorder"
begin

section \<open>Python values, formatting and exceptions\<close>

text \<open>
  The values that travel between the services, the ORM and the database: identifiers,
  column values, and the \<open>dict[str, Any]\<close> payloads of the batch upsert. A UUID is kept
  as its canonical text.
\<close>

datatype pyval =
    PNone
  | PBool bool
  | PInt int
  | PStr string
  | PUuid string
  | PList "pyval list"
  | PDict "(string \<times> pyval) list"

type_synonym dict = "(string \<times> pyval) list"

text \<open>Python truthiness, as tested by \<open>if not result\<close> and \<open>if objs\<close>.\<close>

fun truthy :: "pyval \<Rightarrow> bool" where
  "truthy PNone = False"
| "truthy (PBool b) = b"
| "truthy (PInt i) = (i \<noteq> 0)"
| "truthy (PStr s) = (s \<noteq> [])"
| "truthy (PUuid u) = True"
| "truthy (PList xs) = (xs \<noteq> [])"
| "truthy (PDict d) = (d \<noteq> [])"

text \<open>\<open>dict.get(key, default)\<close> and \<open>dict.pop(key, None)\<close> (the dict that remains).\<close>

definition dict_get :: "dict \<Rightarrow> string \<Rightarrow> pyval \<Rightarrow> pyval" where
  "dict_get d k dflt = (case map_of d k of None \<Rightarrow> dflt | Some v \<Rightarrow> v)"

definition dict_pop :: "dict \<Rightarrow> string \<Rightarrow> dict" where
  "dict_pop d k = filter (\<lambda>kv. fst kv \<noteq> k) d"

subsection \<open>\<open>str()\<close> and \<open>repr()\<close>, as used by the f-strings of the error messages\<close>

definition digit_char :: "nat \<Rightarrow> char" where
  "digit_char d = ''0123456789'' ! d"

fun show_nat :: "nat \<Rightarrow> string" where
  "show_nat n = (if n < 10 then [digit_char n] else show_nat (n div 10) @ [digit_char (n mod 10)])"

definition show_int :: "int \<Rightarrow> string" where
  "show_int i = (if i < 0 then CHR ''-'' # show_nat (nat (- i)) else show_nat (nat i))"

definition hex_char :: "nat \<Rightarrow> char" where
  "hex_char d = ''0123456789abcdef'' ! d"

text \<open>
  \<open>repr\<close> of a \<open>str\<close>: single quotes unless the text holds a single quote and no double
  quote; backslash, the chosen quote, newline, carriage return and tab are escaped, other
  ASCII control characters are written \<open>\xNN\<close>.
\<close>

definition repr_char :: "char \<Rightarrow> char \<Rightarrow> string" where
  "repr_char q c =
     (if c = CHR 0x5C then [CHR 0x5C, CHR 0x5C]
      else if c = q then [CHR 0x5C, q]
      else if c = CHR 0x0A then [CHR 0x5C, CHR ''n'']
      else if c = CHR 0x0D then [CHR 0x5C, CHR ''r'']
      else if c = CHR 0x09 then [CHR 0x5C, CHR ''t'']
      else if (of_char c :: nat) < 32 \<or> (of_char c :: nat) = 127
        then [CHR 0x5C, CHR ''x'', hex_char (of_char c div 16), hex_char (of_char c mod 16)]
      else [c])"

definition repr_str :: "string \<Rightarrow> string" where
  "repr_str s =
     (let q = (if CHR 0x27 \<in> set s \<and> CHR 0x22 \<notin> set s then CHR 0x22 else CHR 0x27)
      in q # concat (map (repr_char q) s) @ [q])"

fun join :: "string \<Rightarrow> string list \<Rightarrow> string" where
  "join sep [] = []"
| "join sep [x] = x"
| "join sep (x # y # ys) = x @ sep @ join sep (y # ys)"

fun py_repr :: "pyval \<Rightarrow> string" where
  "py_repr PNone = ''None''"
| "py_repr (PBool b) = (if b then ''True'' else ''False'')"
| "py_repr (PInt i) = show_int i"
| "py_repr (PStr s) = repr_str s"
| "py_repr (PUuid u) = ''UUID('' @ [CHR 0x27] @ u @ [CHR 0x27] @ '')''"
| "py_repr (PList xs) = ''['' @ join '', '' (map py_repr xs) @ '']''"
| "py_repr (PDict d) =
     ''{'' @ join '', '' (map (\<lambda>kv. repr_str (fst kv) @ '': '' @ py_repr (snd kv)) d) @ ''}''"

definition py_str :: "pyval \<Rightarrow> string" where
  "py_str v = (case v of PStr s \<Rightarrow> s | PUuid u \<Rightarrow> u | _ \<Rightarrow> py_repr v)"

subsection \<open>Exceptions\<close>

text \<open>
  The class of \<open>e.orig\<close> of an \<open>IntegrityError\<close> (\<open>psycopg2.errors\<close>); the error itself
  carries that class, the statement parameters \<open>e.params\<close> and its text \<open>str(e)\<close>.
\<close>

datatype pg_error = UniqueViolation | NotNullViolation | OtherIntegrityViolation

datatype exn =
    HTTPException nat string
  | IntegrityError pg_error dict string
  | TypeError string
  | AttributeError string
  | ArgumentError string
  | ValidationError string
  | DatabaseError string

definition HTTP_400_BAD_REQUEST :: nat where "HTTP_400_BAD_REQUEST = 400"
definition HTTP_404_NOT_FOUND :: nat where "HTTP_404_NOT_FOUND = 404"
definition HTTP_409_CONFLICT :: nat where "HTTP_409_CONFLICT = 409"
definition HTTP_500_INTERNAL_SERVER_ERROR :: nat where "HTTP_500_INTERNAL_SERVER_ERROR = 500"

section \<open>Database sessions\<close>

text \<open>
  The relational database and the ORM are external: a session is the state the
  transaction sees, the last committed state, and the sequence of statements, flushes and
  commits issued so far. What the database answers to a statement, and whether a flush or
  a commit raises, is a parameter (\<open>engine\<close>), so every theorem holds for any database.
\<close>

datatype stmt =
    Insert string pyval "(string list \<times> string list) option"
  | Delete string string "pyval list"
  | Text string

datatype event = Execute stmt | Flush | Commit | Rollback

record 'db session =
  current :: 'db
  durable :: 'db
  trace :: "event list"

record 'db engine =
  on_execute :: "stmt \<Rightarrow> 'db \<Rightarrow> exn + 'db"
  on_flush :: "'db \<Rightarrow> exn option"
  on_commit :: "'db \<Rightarrow> exn option"

type_synonym ('a, 'db) action = "'db session \<Rightarrow> (exn + 'a) \<times> 'db session"

definition py_return :: "'a \<Rightarrow> ('a, 'db) action" where
  "py_return x s = (Inr x, s)"

definition py_raise :: "exn \<Rightarrow> ('a, 'db) action" where
  "py_raise e s = (Inl e, s)"

definition and_then :: "('a, 'db) action \<Rightarrow> ('a \<Rightarrow> ('b, 'db) action) \<Rightarrow> ('b, 'db) action" where
  "and_then m f s = (case m s of (Inl e, s') \<Rightarrow> (Inl e, s') | (Inr x, s') \<Rightarrow> f x s')"

definition session_execute :: "'db engine \<Rightarrow> stmt \<Rightarrow> (unit, 'db) action" where
  "session_execute E st s =
     (case on_execute E st (current s) of
        Inl e \<Rightarrow> (Inl e, s)
      | Inr d \<Rightarrow> (Inr (), s\<lparr>current := d, trace := trace s @ [Execute st]\<rparr>))"

definition session_flush :: "'db engine \<Rightarrow> (unit, 'db) action" where
  "session_flush E s =
     (case on_flush E (current s) of
        Some e \<Rightarrow> (Inl e, s)
      | None \<Rightarrow> (Inr (), s\<lparr>trace := trace s @ [Flush]\<rparr>))"

definition session_commit :: "'db engine \<Rightarrow> (unit, 'db) action" where
  "session_commit E s =
     (case on_commit E (current s) of
        Some e \<Rightarrow> (Inl e, s)
      | None \<Rightarrow> (Inr (), s\<lparr>durable := current s, trace := trace s @ [Commit]\<rparr>))"

text \<open>
  A mapped class: its \<open>__tablename__\<close>, its \<open>id\<close> column and the rows of its table in a
  database state. A column has a key and a value in every row.
\<close>

record 'r Column =
  column_key :: string
  column_value :: "'r \<Rightarrow> pyval"

record ('db, 'r) model =
  tablename :: string
  id_col :: "'r Column"
  table :: "'db \<Rightarrow> 'r list"

section \<open>Existence verification (\<open>crud_verify_existence.py\<close>)\<close>

text \<open>
  A \<open>select\<close> over one mapped class. The database compares a column with a parameter by
  value; NULL equals nothing, and a UUID equals its canonical text.
\<close>

record ('db, 'r) Select =
  select_from :: "('db, 'r) model"
  select_column :: "'r Column option"
  select_options :: "string list"
  whereclause :: "'r \<Rightarrow> bool"

fun sql_norm :: "pyval \<Rightarrow> pyval" where
  "sql_norm (PUuid u) = PStr u"
| "sql_norm v = v"

definition sql_eq :: "pyval \<Rightarrow> pyval \<Rightarrow> bool" where
  "sql_eq a b = (a \<noteq> PNone \<and> b \<noteq> PNone \<and> sql_norm a = sql_norm b)"

text \<open>\<open>isinstance(object_id, int) or isinstance(object_id, str) or isinstance(object_id, uuid.UUID)\<close>\<close>

fun is_int_str_uuid :: "pyval \<Rightarrow> bool" where
  "is_int_str_uuid (PInt i) = True"
| "is_int_str_uuid (PBool b) = True"
| "is_int_str_uuid (PStr s) = True"
| "is_int_str_uuid (PUuid u) = True"
| "is_int_str_uuid v = False"

definition verify_existence_and_get_stmt ::
  "pyval \<Rightarrow> ('db, 'r) model \<Rightarrow> 'r Column option \<Rightarrow> 'r Column option \<Rightarrow> string list option
     \<Rightarrow> exn + (('db, 'r) Select \<times> bool)" where
  "verify_existence_and_get_stmt object_id mdl model_column_id returned_column load_options =
     (let model_column_id = (case model_column_id of None \<Rightarrow> id_col mdl | Some c \<Rightarrow> c);
          st = \<lparr>select_from = mdl, select_column = returned_column, select_options = [],
                whereclause = (\<lambda>r. True)\<rparr>;
          st = (case load_options of
                  None \<Rightarrow> st
                | Some os \<Rightarrow> if os \<noteq> [] then st\<lparr>select_options := os\<rparr> else st)
      in if is_int_str_uuid object_id
         then Inr (st\<lparr>whereclause := (\<lambda>r. sql_eq (column_value model_column_id r) object_id)\<rparr>,
                   False)
         else (case object_id of
                 PList xs \<Rightarrow>
                   Inr (st\<lparr>whereclause :=
                              (\<lambda>r. list_ex (sql_eq (column_value model_column_id r)) xs)\<rparr>,
                        True)
               | _ \<Rightarrow> Inl (ArgumentError ''IN expression list expected'')))"

text \<open>
  \<open>db.execute(stmt).scalars()\<close>: the first column of every selected row, which is the
  entity itself when no column was asked for.
\<close>

datatype 'r scalar = Entity 'r | Value pyval

datatype 'r result = ResultNone | ResultFirst "'r scalar" | ResultAll "'r scalar list"

definition scalars :: "('db, 'r) Select \<Rightarrow> 'db \<Rightarrow> 'r scalar list" where
  "scalars st d =
     map (case select_column st of None \<Rightarrow> Entity | Some c \<Rightarrow> (\<lambda>r. Value (column_value c r)))
       (filter (whereclause st) (table (select_from st) d))"

definition scalars_all :: "('db, 'r) Select \<Rightarrow> 'db \<Rightarrow> 'r result" where
  "scalars_all st d = ResultAll (scalars st d)"

definition scalars_first :: "('db, 'r) Select \<Rightarrow> 'db \<Rightarrow> 'r result" where
  "scalars_first st d = (case scalars st d of [] \<Rightarrow> ResultNone | x # xs \<Rightarrow> ResultFirst x)"

fun result_truthy :: "'r result \<Rightarrow> bool" where
  "result_truthy ResultNone = False"
| "result_truthy (ResultFirst (Entity r)) = True"
| "result_truthy (ResultFirst (Value v)) = truthy v"
| "result_truthy (ResultAll xs) = (xs \<noteq> [])"

definition verify_existence_and_get ::
  "pyval \<Rightarrow> ('db, 'r) model \<Rightarrow> 'r Column option \<Rightarrow> 'r Column option \<Rightarrow> string list option
     \<Rightarrow> bool \<Rightarrow> ('r result, 'db) action" where
  "verify_existence_and_get object_id mdl model_column_id returned_column load_options
     return_model s =
     (case verify_existence_and_get_stmt object_id mdl model_column_id returned_column
             load_options of
        Inl e \<Rightarrow> (Inl e, s)
      | Inr (st, multiple_result) \<Rightarrow>
          (let result = (if multiple_result then scalars_all st (current s)
                         else scalars_first st (current s))
           in if \<not> result_truthy result
              then (Inl (HTTPException HTTP_404_NOT_FOUND
                      (tablename mdl @ '' with id '' @ py_str object_id @ '' does not exists'')), s)
              else (Inr (if return_model then result else ResultNone), s)))"

definition async_verify_existence_and_get ::
  "pyval \<Rightarrow> ('db, 'r) model \<Rightarrow> 'r Column option \<Rightarrow> 'r Column option \<Rightarrow> string list option
     \<Rightarrow> bool \<Rightarrow> bool \<Rightarrow> ('r result, 'db) action" where
  "async_verify_existence_and_get object_id mdl model_column_id returned_column load_options
     return_model ignore_not_found s =
     (case verify_existence_and_get_stmt object_id mdl model_column_id returned_column
             load_options of
        Inl e \<Rightarrow> (Inl e, s)
      | Inr (st, multiple_result) \<Rightarrow>
          (let result = (if multiple_result then scalars_all st (current s)
                         else scalars_first st (current s))
           in if \<not> ignore_not_found \<and> \<not> result_truthy result
              then (Inl (HTTPException HTTP_404_NOT_FOUND
                      (tablename mdl @ '' with id '' @ py_str object_id @ '' does not exist'')), s)
              else (Inr (if return_model then result else ResultNone), s)))"


section \<open>The CRUD helper (\<open>crud_sync_service.py\<close>)\<close>

text \<open>Calls of the logger change nothing in the session and are left out.\<close>

datatype CrudOperation = CrudOperation_create | CrudOperation_update | CrudOperation_delete

definition execute_stmt :: "'db engine \<Rightarrow> stmt \<Rightarrow> ('db, 'r) model \<Rightarrow> (unit, 'db) action" where
  "execute_stmt E st main_model s =
     (case session_execute E st s of
        (Inl (IntegrityError orig params msg), s') \<Rightarrow>
          (if orig = UniqueViolation
           then (Inl (HTTPException HTTP_409_CONFLICT
                   (''Object '' @ tablename main_model @ '' with label ''
                    @ py_str (dict_get params ''libelle'' (PStr [])) @ '' already exists.''
                    @ ''Please try again with another label.'')), s')
           else if orig = NotNullViolation
           then (Inl (HTTPException HTTP_400_BAD_REQUEST msg), s')
           else (Inl (HTTPException HTTP_500_INTERNAL_SERVER_ERROR
                   (''Database integrity error: '' @ msg)), s'))
      | r \<Rightarrow> r)"

definition commit_and_log_session ::
  "'db engine \<Rightarrow> string \<Rightarrow> CrudOperation \<Rightarrow> (unit, 'db) action" where
  "commit_and_log_session E db_object_tablename crud_operation s =
     (case and_then (session_flush E) (\<lambda>_. session_commit E) s of
        (Inl (IntegrityError orig params msg), s') \<Rightarrow>
          (if orig = UniqueViolation
           then (let duplicated_label = dict_get params ''libelle'' (PStr [])
                 in (Inl (HTTPException HTTP_409_CONFLICT
                       (''Object '' @ db_object_tablename @ '' with label ''
                        @ py_str duplicated_label @ '' already exists.''
                        @ ''Please try again with another label.'')), s'))
           else if orig = NotNullViolation
           then (Inl (HTTPException HTTP_400_BAD_REQUEST msg), s')
           else (Inl (HTTPException HTTP_500_INTERNAL_SERVER_ERROR
                   (''Database integrity error: '' @ msg)), s'))
      | r \<Rightarrow> r)"

definition delete_object ::
  "'db engine \<Rightarrow> pyval list \<Rightarrow> ('db, 'q) model \<Rightarrow> ('db, 'r) model \<Rightarrow> 'q Column option
     \<Rightarrow> (unit, 'db) action" where
  "delete_object E object_ids model_to_delete model_to_retrieve model_column_id =
     and_then (verify_existence_and_get (PList object_ids) model_to_retrieve None None None True)
       (\<lambda>_. let model_column_id =
                    (case model_column_id of None \<Rightarrow> id_col model_to_delete | Some c \<Rightarrow> c)
             in session_execute E
                  (Delete (tablename model_to_delete) (column_key model_column_id) object_ids))"

text \<open>
  The comprehension of \<open>insert_procedure\<close> pops every key of \<open>sub_object_models\<close> from the
  payload and keeps the sub-objects that are not \<open>None\<close>.
\<close>

fun pop_sub_objects ::
  "(string \<times> ('db, 'q) model) list \<Rightarrow> dict \<Rightarrow> (('db, 'q) model \<times> pyval) list \<times> dict" where
  "pop_sub_objects [] object_to_insert = ([], object_to_insert)"
| "pop_sub_objects ((key, mdl) # rest) object_to_insert =
     (let objs = dict_get object_to_insert key PNone;
          (sub_objects, remaining) = pop_sub_objects rest (dict_pop object_to_insert key)
      in (if objs \<noteq> PNone then (mdl, objs) # sub_objects else sub_objects, remaining))"

fun insert_sub_objects :: "'db engine \<Rightarrow> (('db, 'q) model \<times> pyval) list \<Rightarrow> (unit, 'db) action" where
  "insert_sub_objects E [] = py_return ()"
| "insert_sub_objects E ((mdl, objs) # rest) =
     and_then (if truthy objs then session_execute E (Insert (tablename mdl) objs None)
               else py_return ())
       (\<lambda>_. insert_sub_objects E rest)"

text \<open>The payload is mutated by the pops: the procedure returns the dict as it is left.\<close>

definition insert_procedure ::
  "'db engine \<Rightarrow> ('db, 'r) model \<Rightarrow> dict \<Rightarrow> (string \<times> ('db, 'q) model) list \<Rightarrow> string \<Rightarrow> bool
     \<Rightarrow> (dict, 'db) action" where
  "insert_procedure E main_model object_to_insert sub_object_models id_column do_update =
     (let (sub_objects, object_to_insert) = pop_sub_objects sub_object_models object_to_insert;
          upsert_stmt =
            Insert (tablename main_model) (PDict object_to_insert)
              (if do_update
               then Some ([id_column],
                          filter (\<lambda>key. key \<notin> {id_column, ''created_at'', ''created_by''})
                            (map fst object_to_insert))
               else None)
      in and_then (execute_stmt E upsert_stmt main_model)
           (\<lambda>_. and_then (insert_sub_objects E sub_objects)
                   (\<lambda>_. py_return object_to_insert)))"

text \<open>\<open>Union[dict[str, Any], list[dict[str, Any]]]\<close>\<close>

datatype object_to_insert = OneObject dict | ObjectList "dict list"

fun insert_each ::
  "'db engine \<Rightarrow> ('db, 'r) model \<Rightarrow> dict list \<Rightarrow> (string \<times> ('db, 'q) model) list \<Rightarrow> string \<Rightarrow> bool
     \<Rightarrow> string \<Rightarrow> (string, 'db) action" where
  "insert_each E main_model [] sub_object_models id_column do_update ids = py_return ids"
| "insert_each E main_model (obj # objs) sub_object_models id_column do_update ids =
     and_then (insert_procedure E main_model obj sub_object_models id_column do_update)
       (\<lambda>obj. insert_each E main_model objs sub_object_models id_column do_update
                 (ids @ '' '' @ py_str (dict_get obj id_column (PStr [])) @ '' ,''))"

definition multiple_insert_procedure ::
  "'db engine \<Rightarrow> ('db, 'r) model \<Rightarrow> object_to_insert \<Rightarrow> (string \<times> ('db, 'q) model) list \<Rightarrow> string
     \<Rightarrow> bool \<Rightarrow> (pyval, 'db) action" where
  "multiple_insert_procedure E main_model object_to_insert sub_object_models id_column do_update =
     (case object_to_insert of
        ObjectList objs \<Rightarrow>
          and_then (insert_each E main_model objs sub_object_models id_column do_update [])
            (\<lambda>ids. py_return (PStr ids))
      | OneObject obj \<Rightarrow>
          (let ids = dict_get obj id_column (PStr [])
           in and_then (insert_procedure E main_model obj sub_object_models id_column do_update)
                (\<lambda>_. py_return ids)))"

text \<open>
  The loop of the update branch of \<open>upsert_procedure\<close>: the dependent rows of every
  sub-model are deleted, and the hook that follows each deletion is guarded by
  \<open>execute_after_insert\<close>. Calling \<open>None\<close> raises \<open>TypeError\<close>.
\<close>

fun delete_sub_objects ::
  "'db engine \<Rightarrow> pyval list \<Rightarrow> ('db, 'r) model \<Rightarrow> (string \<times> 'q Column) list option
     \<Rightarrow> (unit, 'db) action option \<Rightarrow> (pyval list \<Rightarrow> (unit, 'db) action) option
     \<Rightarrow> (string \<times> ('db, 'q) model) list \<Rightarrow> (unit, 'db) action" where
  "delete_sub_objects E updated_ids main_model sub_obj_parent_columns execute_after_insert
     execute_after_delete [] = py_return ()"
| "delete_sub_objects E updated_ids main_model sub_obj_parent_columns execute_after_insert
     execute_after_delete ((key, sub_model) # rest) =
     and_then
       (delete_object E updated_ids sub_model main_model
          (case sub_obj_parent_columns of
             None \<Rightarrow> None
           | Some cols \<Rightarrow> if cols \<noteq> [] then map_of cols key else None))
       (\<lambda>_. and_then
               (if execute_after_insert \<noteq> None
                then (case execute_after_delete of
                        None \<Rightarrow> py_raise (TypeError (CHR 0x27 # ''NoneType'' @ CHR 0x27 # '' object is not callable''))
                      | Some hook \<Rightarrow> hook updated_ids)
                else py_return ())
               (\<lambda>_. delete_sub_objects E updated_ids main_model sub_obj_parent_columns
                       execute_after_insert execute_after_delete rest))"

definition upsert_procedure ::
  "'db engine \<Rightarrow> ('db, 'r) model \<Rightarrow> object_to_insert \<Rightarrow> (string \<times> ('db, 'q) model) list
     \<Rightarrow> (string \<times> 'q Column) list option \<Rightarrow> string \<Rightarrow> bool
     \<Rightarrow> (unit, 'db) action option \<Rightarrow> (pyval list \<Rightarrow> (unit, 'db) action) option
     \<Rightarrow> (unit, 'db) action" where
  "upsert_procedure E main_model object_to_insert sub_object_models sub_obj_parent_columns
     id_column do_update execute_after_insert execute_after_delete =
     and_then
       (if do_update
        then (case object_to_insert of
                ObjectList objs \<Rightarrow> py_raise (AttributeError (CHR 0x27 # ''list'' @ CHR 0x27 # '' object has no attribute ''
                               @ CHR 0x27 # ''get'' @ [CHR 0x27]))
              | OneObject obj \<Rightarrow>
                  (let updated_ids = [dict_get obj id_column (PStr [])]
                   in delete_sub_objects E updated_ids main_model sub_obj_parent_columns
                        execute_after_insert execute_after_delete sub_object_models))
        else py_return ())
       (\<lambda>_. and_then
               (multiple_insert_procedure E main_model object_to_insert sub_object_models
                  id_column do_update)
               (\<lambda>ids. and_then
                         (case execute_after_insert of
                            None \<Rightarrow> py_return ()
                          | Some hook \<Rightarrow> hook)
                         (\<lambda>_. session_commit E)))"

section \<open>The axis service (\<open>features/axe_ef/service.py\<close>)\<close>

text \<open>
  The mapped classes \<open>ServiceAnnuel\<close>, \<open>SectionAxe\<close>, \<open>AxeEf\<close>, \<open>AxeEfSection\<close> and
  \<open>LvpkSectionAxe\<close> are declared in the package \<open>opticapa_models\<close>, outside this
  repository. Their columns are the ones the service reads and writes, an \<open>AxeEf\<close> object is
  its row together with the \<open>sections\<close> reached through the association table, and the
  table names are a parameter. A \<open>datetime\<close> is a point on a time line.
\<close>

type_synonym datetime = int

record ServiceAnnuel =
  id' :: string

record SectionAxe =
  onb_tcap :: int
  libelle :: string
  service_annuel_id :: string

record AxeEf_row =
  id' :: string
  libelle :: string
  description :: "string option"
  nature :: string
  color :: string
  service_annuel_id :: string
  created_at :: "datetime option"
  created_by :: "int option"
  modified_at :: "datetime option"
  modified_by :: "int option"

record AxeEf = AxeEf_row +
  sections :: "SectionAxe list"

record AxeEfSection =
  axe_ef_id :: string
  section_axe_onb :: int

record LvpkSectionAxe =
  section_axe_onb :: int
  ligne :: pyval
  voie :: pyval
  pk_debut :: pyval
  pk_fin :: pyval

record database =
  service_annuel_rows :: "ServiceAnnuel list"
  section_axe_rows :: "SectionAxe list"
  axe_ef_rows :: "AxeEf_row list"
  axe_ef_section_rows :: "AxeEfSection list"
  lvpk_section_axe_rows :: "LvpkSectionAxe list"

record table_names =
  ServiceAnnuel_tablename :: string
  SectionAxe_tablename :: string
  AxeEf_tablename :: string

definition load_sections :: "database \<Rightarrow> string \<Rightarrow> SectionAxe list" where
  "load_sections d axe_id =
     filter (\<lambda>sec. list_ex (\<lambda>l. axe_ef_id l = axe_id
                               \<and> AxeEfSection.section_axe_onb l = onb_tcap sec)
                    (axe_ef_section_rows d))
       (section_axe_rows d)"

definition load_AxeEf :: "database \<Rightarrow> AxeEf_row \<Rightarrow> AxeEf" where
  "load_AxeEf d r = AxeEf_row.extend r (AxeEf.fields (load_sections d (AxeEf_row.id' r)))"

definition ServiceAnnuel_model :: "table_names \<Rightarrow> (database, ServiceAnnuel) model" where
  "ServiceAnnuel_model N =
     \<lparr>tablename = ServiceAnnuel_tablename N,
      id_col = \<lparr>column_key = ''id'', column_value = (\<lambda>r. PStr (ServiceAnnuel.id' r))\<rparr>,
      table = service_annuel_rows\<rparr>"

definition SectionAxe_onb_tcap :: "SectionAxe Column" where
  "SectionAxe_onb_tcap = \<lparr>column_key = ''onb_tcap'', column_value = (\<lambda>r. PInt (onb_tcap r))\<rparr>"

text \<open>The service looks sections up by \<open>onb_tcap\<close> only; that column stands for the key.\<close>

definition SectionAxe_model :: "table_names \<Rightarrow> (database, SectionAxe) model" where
  "SectionAxe_model N =
     \<lparr>tablename = SectionAxe_tablename N, id_col = SectionAxe_onb_tcap, table = section_axe_rows\<rparr>"

definition AxeEf_model :: "table_names \<Rightarrow> (database, AxeEf) model" where
  "AxeEf_model N =
     \<lparr>tablename = AxeEf_tablename N,
      id_col = \<lparr>column_key = ''id'', column_value = (\<lambda>r. PUuid (AxeEf_row.id' r))\<rparr>,
      table = (\<lambda>d. map (load_AxeEf d) (axe_ef_rows d))\<rparr>"

subsection \<open>Schemas (\<open>features/axe_ef/schemas.py\<close>)\<close>

text \<open>
  Modelled from the spec: the base classes \<open>GetColoredSimpleObj\<close>, \<open>GetIdentifiedSimpleObj\<close>
  and \<open>ObjectGetAll\<close> are not in the repository; the data model gives an axis an
  identifier, a label and a display colour, and the list query selects the remaining
  fields of \<open>AxeEfGetAll\<close>.
\<close>

record AxeEfCreateUpdate =
  libelle :: string
  color :: string
  nature :: string
  description :: "string option"
  service_annuel_id :: string
  section_axe_onbs :: "int list"

record AxeEfGet =
  id' :: string
  libelle :: string
  description :: "string option"
  nature :: string
  color :: string
  service_annuel_id :: string
  section_axes :: "SectionAxe list"

record AxeEfGetAll =
  id' :: string
  libelle :: string
  color :: string
  nature :: string
  description :: "string option"
  updated_at :: datetime
  lvpks :: "pyval list"

subsection \<open>ORM operations on an \<open>AxeEf\<close> object\<close>

text \<open>
  \<open>session.add\<close> inserts the row and one association row per section;
  \<open>sections.clear()\<close> removes the association rows of the object; \<open>session.merge\<close> copies
  the attributes that are set on the given object onto the persistent row with the same
  identifier (adding the object when there is none) and replaces its collection;
  \<open>session.delete\<close> removes the row and its association rows. The session does not
  autoflush; the changes are checked by the database at the next flush.
\<close>

definition links :: "AxeEf \<Rightarrow> AxeEfSection list" where
  "links obj =
     map (\<lambda>sec. \<lparr>axe_ef_id = AxeEf_row.id' obj, section_axe_onb = onb_tcap sec\<rparr>) (sections obj)"

definition session_add :: "AxeEf \<Rightarrow> (unit, database) action" where
  "session_add obj s =
     (Inr (), s\<lparr>current := (current s)
                 \<lparr>axe_ef_rows := axe_ef_rows (current s) @ [AxeEf_row.truncate obj],
                  axe_ef_section_rows := axe_ef_section_rows (current s) @ links obj\<rparr>\<rparr>)"

definition sections_clear :: "AxeEf \<Rightarrow> (unit, database) action" where
  "sections_clear obj s =
     (Inr (), s\<lparr>current := (current s)
                 \<lparr>axe_ef_section_rows :=
                    filter (\<lambda>l. axe_ef_id l \<noteq> AxeEf_row.id' obj) (axe_ef_section_rows (current s))\<rparr>\<rparr>)"

definition merge_row :: "AxeEf \<Rightarrow> AxeEf_row \<Rightarrow> AxeEf_row" where
  "merge_row obj r =
     r\<lparr>AxeEf_row.libelle := AxeEf_row.libelle obj,
       AxeEf_row.description := AxeEf_row.description obj,
       AxeEf_row.nature := AxeEf_row.nature obj,
       AxeEf_row.color := AxeEf_row.color obj,
       AxeEf_row.service_annuel_id := AxeEf_row.service_annuel_id obj,
       created_at := (case created_at obj of None \<Rightarrow> created_at r | Some t \<Rightarrow> Some t),
       created_by := (case created_by obj of None \<Rightarrow> created_by r | Some u \<Rightarrow> Some u),
       modified_at := (case modified_at obj of None \<Rightarrow> modified_at r | Some t \<Rightarrow> Some t),
       modified_by := (case modified_by obj of None \<Rightarrow> modified_by r | Some u \<Rightarrow> Some u)\<rparr>"

definition session_merge :: "AxeEf \<Rightarrow> (AxeEf, database) action" where
  "session_merge obj s =
     (if list_ex (\<lambda>r. AxeEf_row.id' r = AxeEf_row.id' obj) (axe_ef_rows (current s))
      then (Inr obj,
            s\<lparr>current := (current s)
                \<lparr>axe_ef_rows :=
                   map (\<lambda>r. if AxeEf_row.id' r = AxeEf_row.id' obj then merge_row obj r else r)
                     (axe_ef_rows (current s)),
                 axe_ef_section_rows :=
                   filter (\<lambda>l. axe_ef_id l \<noteq> AxeEf_row.id' obj) (axe_ef_section_rows (current s))
                   @ links obj\<rparr>\<rparr>)
      else (case session_add obj s of (r, s') \<Rightarrow> (Inr obj, s')))"

definition session_delete :: "AxeEf \<Rightarrow> (unit, database) action" where
  "session_delete obj s =
     (Inr (), s\<lparr>current := (current s)
                 \<lparr>axe_ef_rows := filter (\<lambda>r. AxeEf_row.id' r \<noteq> AxeEf_row.id' obj) (axe_ef_rows (current s)),
                  axe_ef_section_rows :=
                    filter (\<lambda>l. axe_ef_id l \<noteq> AxeEf_row.id' obj) (axe_ef_section_rows (current s))\<rparr>\<rparr>)"

subsection \<open>The ORM procedures of the CRUD helper, on an \<open>AxeEf\<close> object\<close>

text \<open>
  \<open>update_procedure\<close> dispatches on the class of \<open>obj_to_update\<close>; for an \<open>AxeEf\<close> the
  collection that is cleared is \<open>sections\<close>. The other classes are outside the repository.
\<close>

definition create_procedure :: "database engine \<Rightarrow> table_names \<Rightarrow> AxeEf \<Rightarrow> (unit, database) action" where
  "create_procedure E N db_object =
     and_then (session_add db_object)
       (\<lambda>_. commit_and_log_session E (AxeEf_tablename N) CrudOperation_create)"

definition update_procedure ::
  "database engine \<Rightarrow> table_names \<Rightarrow> AxeEf \<Rightarrow> AxeEf \<Rightarrow> (unit, database) action" where
  "update_procedure E N db_object obj_to_update =
     and_then (sections_clear obj_to_update)
       (\<lambda>_. and_then (session_flush E)
               (\<lambda>_. and_then (session_merge db_object)
                       (\<lambda>db_object. commit_and_log_session E (AxeEf_tablename N)
                                       CrudOperation_update)))"

definition delete_procedure :: "database engine \<Rightarrow> table_names \<Rightarrow> AxeEf \<Rightarrow> (unit, database) action" where
  "delete_procedure E N db_object =
     and_then (session_delete db_object)
       (\<lambda>_. commit_and_log_session E (AxeEf_tablename N) CrudOperation_delete)"

subsection \<open>\<open>AxeEfService\<close>\<close>

definition get_axe_ef :: "table_names \<Rightarrow> string \<Rightarrow> (AxeEfGet, database) action" where
  "get_axe_ef N axe_ef_id' =
     and_then (verify_existence_and_get (PStr axe_ef_id') (AxeEf_model N) None None
                 (Some [''sections'']) True)
       (\<lambda>res. case res of
                 ResultFirst (Entity axe_ef) \<Rightarrow>
                   py_return
                     \<lparr>AxeEfGet.id' = AxeEf_row.id' axe_ef,
                      AxeEfGet.libelle = AxeEf_row.libelle axe_ef,
                      AxeEfGet.description = AxeEf_row.description axe_ef,
                      AxeEfGet.nature = AxeEf_row.nature axe_ef,
                      AxeEfGet.color = AxeEf_row.color axe_ef,
                      AxeEfGet.service_annuel_id = AxeEf_row.service_annuel_id axe_ef,
                      section_axes = sections axe_ef\<rparr>
               | _ \<Rightarrow> py_raise (AttributeError ''sections''))"

text \<open>
  The list query: the inner joins of axes, association rows and LVPK rows, grouped by
  axis and aggregated with \<open>json_agg\<close>, ordered by label (here the order of the character
  codes; ties and the order inside an aggregate are left open by SQL and fixed by the
  lists). The count query counts the identifiers of all axes.
\<close>

definition lvpks_of :: "database \<Rightarrow> AxeEf_row \<Rightarrow> pyval list" where
  "lvpks_of d a =
     concat
       (map (\<lambda>l. map (\<lambda>v. PDict [(''ligne'', ligne v), (''voie'', voie v),
                                  (''pk_debut'', pk_debut v), (''pk_fin'', pk_fin v)])
                   (filter (\<lambda>v. LvpkSectionAxe.section_axe_onb v = AxeEfSection.section_axe_onb l)
                      (lvpk_section_axe_rows d)))
          (filter (\<lambda>l. axe_ef_id l = AxeEf_row.id' a) (axe_ef_section_rows d)))"

definition get_all_query :: "database \<Rightarrow> (AxeEf_row \<times> datetime option \<times> pyval list) list" where
  "get_all_query d =
     sort_key (\<lambda>row. AxeEf_row.libelle (fst row))
       (map (\<lambda>a. (a,
                   (case modified_at a of Some t \<Rightarrow> Some t | None \<Rightarrow> created_at a),
                   lvpks_of d a))
          (filter (\<lambda>a. lvpks_of d a \<noteq> []) (axe_ef_rows d)))"

definition count_query :: "database \<Rightarrow> nat" where
  "count_query d = length (axe_ef_rows d)"

definition model_validate :: "AxeEf_row \<times> datetime option \<times> pyval list \<Rightarrow> exn + AxeEfGetAll" where
  "model_validate row =
     (case row of (a, updated, agg) \<Rightarrow>
        (case updated of
           None \<Rightarrow> Inl (ValidationError ''updated_at: Input should be a valid datetime'')
         | Some t \<Rightarrow>
             Inr \<lparr>AxeEfGetAll.id' = AxeEf_row.id' a,
                  AxeEfGetAll.libelle = AxeEf_row.libelle a,
                  AxeEfGetAll.color = AxeEf_row.color a,
                  AxeEfGetAll.nature = AxeEf_row.nature a,
                  AxeEfGetAll.description = AxeEf_row.description a,
                  updated_at = t,
                  lvpks = agg\<rparr>))"

fun model_validate_each ::
  "(AxeEf_row \<times> datetime option \<times> pyval list) list \<Rightarrow> exn + AxeEfGetAll list" where
  "model_validate_each [] = Inr []"
| "model_validate_each (row # rows) =
     (case model_validate row of
        Inl e \<Rightarrow> Inl e
      | Inr x \<Rightarrow> (case model_validate_each rows of Inl e \<Rightarrow> Inl e | Inr xs \<Rightarrow> Inr (x # xs)))"

definition get_all_axes_ef :: "(AxeEfGetAll list \<times> nat, database) action" where
  "get_all_axes_ef s =
     (let axes_ef = get_all_query (current s);
          count = count_query (current s)
      in case model_validate_each axes_ef of
           Inl e \<Rightarrow> (Inl e, s)
         | Inr formatted_axes_ef \<Rightarrow> (Inr (formatted_axes_ef, count), s))"

definition validate_sections :: "SectionAxe list \<Rightarrow> string \<Rightarrow> (unit, database) action" where
  "validate_sections sections_axes service_annuel_id' =
     (if sections_axes = []
      then py_raise (HTTPException HTTP_400_BAD_REQUEST
             (''No TCAP sections axes were specified.'' @ [CHR 0x0A]
              @ ''Please select at least one valid section on the specified SA ''
              @ service_annuel_id'))
      else (let unvalid_sections =
                  map SectionAxe.libelle
                    (filter (\<lambda>section_axe. SectionAxe.service_annuel_id section_axe
                                             \<noteq> service_annuel_id')
                       sections_axes)
            in if unvalid_sections \<noteq> []
               then (let libelles = join '', '' unvalid_sections
                     in py_raise (HTTPException HTTP_400_BAD_REQUEST
                          (''TCAP sections axes '' @ libelles @ '' aren'' @ [CHR 0x27]
                           @ ''t valid on the specified SA '' @ service_annuel_id' @ ''.''
                           @ [CHR 0x0A] @ ''Please select valid sections on this SA'')))
               else py_return ()))"

text \<open>
  The dict that \<open>_make_axe_ef\<close> returns: the fields of the request without
  \<open>section_axe_onbs\<close>, the resolved \<open>sections\<close>, and the metadata that was stamped.
\<close>

record axe_ef_dict =
  libelle :: string
  color :: string
  nature :: string
  description :: "string option"
  service_annuel_id :: string
  sections :: "SectionAxe list"
  created_at :: "datetime option"
  created_by :: "int option"
  modified_at :: "datetime option"
  modified_by :: "int option"

fun entities :: "'r result \<Rightarrow> 'r list" where
  "entities (ResultAll xs) = concat (map (\<lambda>x. case x of Entity r \<Rightarrow> [r] | Value v \<Rightarrow> []) xs)"
| "entities (ResultFirst (Entity r)) = [r]"
| "entities r = []"

definition make_axe_ef ::
  "table_names \<Rightarrow> datetime \<Rightarrow> AxeEfCreateUpdate \<Rightarrow> int \<Rightarrow> bool \<Rightarrow> (axe_ef_dict, database) action" where
  "make_axe_ef N now axe_ef user_id is_new =
     and_then (verify_existence_and_get (PStr (AxeEfCreateUpdate.service_annuel_id axe_ef))
                 (ServiceAnnuel_model N) None None None False)
       (\<lambda>_. let sections_onbs = section_axe_onbs axe_ef
             in and_then (verify_existence_and_get (PList (map PInt sections_onbs))
                            (SectionAxe_model N) (Some SectionAxe_onb_tcap) None None True)
                  (\<lambda>sections_axes.
                     and_then (validate_sections (entities sections_axes)
                                 (AxeEfCreateUpdate.service_annuel_id axe_ef))
                       (\<lambda>_. py_return
                               \<lparr>axe_ef_dict.libelle = AxeEfCreateUpdate.libelle axe_ef,
                                axe_ef_dict.color = AxeEfCreateUpdate.color axe_ef,
                                axe_ef_dict.nature = AxeEfCreateUpdate.nature axe_ef,
                                axe_ef_dict.description = AxeEfCreateUpdate.description axe_ef,
                                axe_ef_dict.service_annuel_id =
                                  AxeEfCreateUpdate.service_annuel_id axe_ef,
                                axe_ef_dict.sections = entities sections_axes,
                                axe_ef_dict.created_at = (if is_new then Some now else None),
                                axe_ef_dict.created_by = (if is_new then Some user_id else None),
                                axe_ef_dict.modified_at = (if is_new then None else Some now),
                                axe_ef_dict.modified_by =
                                  (if is_new then None else Some user_id)\<rparr>)))"

text \<open>\<open>AxeEf(id=axe_ef_id, **axe_ef_dict)\<close>\<close>

definition AxeEf_init :: "string \<Rightarrow> axe_ef_dict \<Rightarrow> AxeEf" where
  "AxeEf_init axe_ef_id' d =
     \<lparr>AxeEf_row.id' = axe_ef_id',
      AxeEf_row.libelle = axe_ef_dict.libelle d,
      AxeEf_row.description = axe_ef_dict.description d,
      AxeEf_row.nature = axe_ef_dict.nature d,
      AxeEf_row.color = axe_ef_dict.color d,
      AxeEf_row.service_annuel_id = axe_ef_dict.service_annuel_id d,
      AxeEf_row.created_at = axe_ef_dict.created_at d,
      AxeEf_row.created_by = axe_ef_dict.created_by d,
      AxeEf_row.modified_at = axe_ef_dict.modified_at d,
      AxeEf_row.modified_by = axe_ef_dict.modified_by d,
      AxeEf.sections = axe_ef_dict.sections d\<rparr>"

datatype response =
    CreatedResponse string
  | UpdatedResponse string
  | DeletedResponse string
  | PaginationAxeEf "AxeEfGetAll list" nat
  | Detail AxeEfGet
  | Items "AxeEfGetAll list \<times> nat"
  | Made axe_ef_dict
  | Nothing

text \<open>\<open>uuid4()\<close> and \<open>datetime.now()\<close> are given: \<open>new_uuid\<close> and \<open>now\<close>.\<close>

definition create_axe_ef ::
  "table_names \<Rightarrow> database engine \<Rightarrow> string \<Rightarrow> datetime \<Rightarrow> AxeEfCreateUpdate \<Rightarrow> int
     \<Rightarrow> (response, database) action" where
  "create_axe_ef N E new_uuid now request user_id =
     (let axe_ef_id' = new_uuid
      in and_then (make_axe_ef N now request user_id True)
           (\<lambda>d. let axe_ef = AxeEf_init axe_ef_id' d
                 in and_then (create_procedure E N axe_ef)
                      (\<lambda>_. py_return (CreatedResponse (AxeEf_row.id' axe_ef)))))"

definition update_axe_ef ::
  "table_names \<Rightarrow> database engine \<Rightarrow> datetime \<Rightarrow> string \<Rightarrow> AxeEfCreateUpdate \<Rightarrow> int
     \<Rightarrow> (response, database) action" where
  "update_axe_ef N E now axe_ef_id' request user_id =
     and_then (verify_existence_and_get (PStr axe_ef_id') (AxeEf_model N) None None None True)
       (\<lambda>res. case res of
                 ResultFirst (Entity axe_ef_to_update) \<Rightarrow>
                   and_then (make_axe_ef N now request user_id False)
                     (\<lambda>d. let axe_ef = AxeEf_init axe_ef_id' d
                           in and_then (update_procedure E N axe_ef axe_ef_to_update)
                                (\<lambda>_. py_return (UpdatedResponse (AxeEf_row.id' axe_ef))))
               | _ \<Rightarrow> py_raise (AttributeError ''sections''))"

definition delete_axe_ef ::
  "table_names \<Rightarrow> database engine \<Rightarrow> string \<Rightarrow> (response, database) action" where
  "delete_axe_ef N E axe_ef_id' =
     and_then (verify_existence_and_get (PStr axe_ef_id') (AxeEf_model N) None None None True)
       (\<lambda>res. case res of
                 ResultFirst (Entity axe_ef) \<Rightarrow>
                   and_then (delete_procedure E N axe_ef)
                     (\<lambda>_. py_return (DeletedResponse axe_ef_id'))
               | _ \<Rightarrow> py_raise (AttributeError ''sections''))"

subsection \<open>Calling a method of the class\<close>

text \<open>
  The router reaches the service by attribute lookup on the class and a call with keyword
  arguments. A name the class does not define raises \<open>AttributeError\<close>; a keyword the
  method does not take, or a required parameter that is not supplied, raises \<open>TypeError\<close>
  before the body runs. The session is the state itself, so its keyword only marks that
  it was passed. An argument of another type than the annotated one is not followed
  further.
\<close>

datatype arg =
    ArgStr string
  | ArgInt int
  | ArgBool bool
  | ArgRequest AxeEfCreateUpdate
  | ArgSections "SectionAxe list"
  | ArgSession

definition quoted :: "string \<Rightarrow> string" where
  "quoted s = CHR 0x27 # s @ [CHR 0x27]"

fun names_tail :: "string list \<Rightarrow> string" where
  "names_tail [] = []"
| "names_tail [a] = ''and '' @ quoted a"
| "names_tail (a # b # r) = quoted a @ '', '' @ names_tail (b # r)"

definition names_text :: "string list \<Rightarrow> string" where
  "names_text xs =
     (case xs of
        [a] \<Rightarrow> quoted a
      | [a, b] \<Rightarrow> quoted a @ '' and '' @ quoted b
      | _ \<Rightarrow> names_tail xs)"

definition bind_arguments :: "string \<Rightarrow> string list \<Rightarrow> (string \<times> arg) list \<Rightarrow> exn option" where
  "bind_arguments fname parameters kwargs =
     (case filter (\<lambda>k. k \<notin> set parameters) (map fst kwargs) of
        k # ks \<Rightarrow> Some (TypeError (fname @ ''() got an unexpected keyword argument '' @ quoted k))
      | [] \<Rightarrow>
          (case filter (\<lambda>p. p \<notin> set (map fst kwargs)) parameters of
             [] \<Rightarrow> None
           | missing \<Rightarrow>
               Some (TypeError
                 (fname @ ''() missing '' @ show_nat (length missing)
                  @ '' required positional argument''
                  @ (if length missing = 1 then [] else ''s'') @ '': ''
                  @ names_text missing))))"

definition ill_typed :: exn where
  "ill_typed = TypeError ''argument of an unexpected type''"

definition AxeEfService_call ::
  "table_names \<Rightarrow> database engine \<Rightarrow> string \<Rightarrow> datetime \<Rightarrow> string \<Rightarrow> (string \<times> arg) list
     \<Rightarrow> (response, database) action" where
  "AxeEfService_call N E new_uuid now name kwargs =
     (if name = ''get_axe_ef'' then
        (case bind_arguments ''AxeEfService.get_axe_ef'' [''axe_ef_id'', ''session''] kwargs of
           Some e \<Rightarrow> py_raise e
         | None \<Rightarrow>
             (case map_of kwargs ''axe_ef_id'' of
                Some (ArgStr i) \<Rightarrow> and_then (get_axe_ef N i) (\<lambda>r. py_return (Detail r))
              | _ \<Rightarrow> py_raise ill_typed))
      else if name = ''get_all_axes_ef'' then
        (case bind_arguments ''AxeEfService.get_all_axes_ef'' [''session''] kwargs of
           Some e \<Rightarrow> py_raise e
         | None \<Rightarrow> and_then get_all_axes_ef (\<lambda>r. py_return (Items r)))
      else if name = ''_validate_sections'' then
        (case bind_arguments ''AxeEfService._validate_sections''
                [''sections_axes'', ''service_annuel_id''] kwargs of
           Some e \<Rightarrow> py_raise e
         | None \<Rightarrow>
             (case (map_of kwargs ''sections_axes'', map_of kwargs ''service_annuel_id'') of
                (Some (ArgSections secs), Some (ArgStr sa)) \<Rightarrow>
                  and_then (validate_sections secs sa) (\<lambda>_. py_return Nothing)
              | _ \<Rightarrow> py_raise ill_typed))
      else if name = ''_make_axe_ef'' then
        (case bind_arguments ''AxeEfService._make_axe_ef''
                [''axe_ef'', ''user_id'', ''is_new'', ''session''] kwargs of
           Some e \<Rightarrow> py_raise e
         | None \<Rightarrow>
             (case (map_of kwargs ''axe_ef'', map_of kwargs ''user_id'', map_of kwargs ''is_new'') of
                (Some (ArgRequest r), Some (ArgInt u), Some (ArgBool b)) \<Rightarrow>
                  and_then (make_axe_ef N now r u b) (\<lambda>d. py_return (Made d))
              | _ \<Rightarrow> py_raise ill_typed))
      else if name = ''create_axe_ef'' then
        (case bind_arguments ''AxeEfService.create_axe_ef''
                [''request'', ''user_id'', ''session''] kwargs of
           Some e \<Rightarrow> py_raise e
         | None \<Rightarrow>
             (case (map_of kwargs ''request'', map_of kwargs ''user_id'') of
                (Some (ArgRequest r), Some (ArgInt u)) \<Rightarrow> create_axe_ef N E new_uuid now r u
              | _ \<Rightarrow> py_raise ill_typed))
      else if name = ''update_axe_ef'' then
        (case bind_arguments ''AxeEfService.update_axe_ef''
                [''axe_ef_id'', ''request'', ''user_id'', ''session''] kwargs of
           Some e \<Rightarrow> py_raise e
         | None \<Rightarrow>
             (case (map_of kwargs ''axe_ef_id'', map_of kwargs ''request'',
                    map_of kwargs ''user_id'') of
                (Some (ArgStr i), Some (ArgRequest r), Some (ArgInt u)) \<Rightarrow>
                  update_axe_ef N E now i r u
              | _ \<Rightarrow> py_raise ill_typed))
      else if name = ''delete_axe_ef'' then
        (case bind_arguments ''AxeEfService.delete_axe_ef'' [''axe_ef_id'', ''session''] kwargs of
           Some e \<Rightarrow> py_raise e
         | None \<Rightarrow>
             (case map_of kwargs ''axe_ef_id'' of
                Some (ArgStr i) \<Rightarrow> delete_axe_ef N E i
              | _ \<Rightarrow> py_raise ill_typed))
      else py_raise (AttributeError
             (''type object '' @ quoted ''AxeEfService'' @ '' has no attribute '' @ quoted name)))"

section \<open>The session dependencies (\<open>shared/database/manage_db.py\<close>)\<close>

text \<open>
  A session dependency opens a session, sets the time zone of the connection with two
  statements (\<open>SET TIME ZONE\<close>, then \<open>SHOW TIME ZONE\<close>, whose row is only logged), and
  yields the session to the handler. When the handler raises, the session is rolled back
  and the error raised again. The set-up runs before the \<open>try\<close>: when one of its statements
  raises, the handler is not called and nothing is rolled back. The time zone name comes
  from the settings and is a parameter.
\<close>

definition set_default_timezone :: "'db engine \<Rightarrow> string \<Rightarrow> (unit, 'db) action" where
  "set_default_timezone E timezone_name =
     and_then (session_execute E (Text (''SET TIME ZONE '' @ quoted timezone_name @ '';'')))
       (\<lambda>_. session_execute E (Text ''SHOW TIME ZONE;''))"

definition async_set_default_timezone :: "'db engine \<Rightarrow> string \<Rightarrow> (unit, 'db) action" where
  "async_set_default_timezone E timezone_name =
     and_then (session_execute E (Text (''SET TIME ZONE '' @ quoted timezone_name @ '';'')))
       (\<lambda>_. session_execute E (Text ''SHOW TIME ZONE;''))"

definition get_sync_session :: "'db engine \<Rightarrow> string \<Rightarrow> ('a, 'db) action \<Rightarrow> ('a, 'db) action" where
  "get_sync_session E timezone_name handler s =
     (case set_default_timezone E timezone_name s of
        (Inl e, db_session) \<Rightarrow> (Inl e, db_session)
      | (Inr u, db_session) \<Rightarrow>
          (case handler db_session of
             (Inl e, s') \<Rightarrow>
               (Inl e, s'\<lparr>current := durable s', trace := trace s' @ [Rollback]\<rparr>)
           | (Inr x, s') \<Rightarrow> (Inr x, s')))"

definition get_async_session :: "'db engine \<Rightarrow> string \<Rightarrow> ('a, 'db) action \<Rightarrow> ('a, 'db) action" where
  "get_async_session E timezone_name handler s =
     (case async_set_default_timezone E timezone_name s of
        (Inl e, session) \<Rightarrow> (Inl e, session)
      | (Inr u, session) \<Rightarrow>
          (case handler session of
             (Inl e, s') \<Rightarrow>
               (Inl e, s'\<lparr>current := durable s', trace := trace s' @ [Rollback]\<rparr>)
           | (Inr x, s') \<Rightarrow> (Inr x, s')))"

section \<open>The router (\<open>features/axe_ef/router.py\<close>)\<close>

text \<open>
  The handlers, as functions of the session that the dependency yields. A request to a
  route with a synchronous session is served by \<open>get_sync_session E tz handler\<close>, the renew
  route by \<open>get_async_session E tz handler\<close>.
\<close>

definition route_get_all_paginated_axes_ef ::
  "table_names \<Rightarrow> database engine \<Rightarrow> string \<Rightarrow> datetime \<Rightarrow> (response, database) action" where
  "route_get_all_paginated_axes_ef N E new_uuid now =
     and_then (AxeEfService_call N E new_uuid now ''get_all_axes_ef'' [(''session'', ArgSession)])
       (\<lambda>r. case r of
               Items (axes_ef, count) \<Rightarrow> py_return (PaginationAxeEf axes_ef count)
             | _ \<Rightarrow> py_raise ill_typed)"

definition route_get_axe_ef_by_id ::
  "table_names \<Rightarrow> database engine \<Rightarrow> string \<Rightarrow> datetime \<Rightarrow> string
     \<Rightarrow> (response, database) action" where
  "route_get_axe_ef_by_id N E new_uuid now axe_ef_id' =
     AxeEfService_call N E new_uuid now ''get_axe_ef''
       [(''axe_ef_id'', ArgStr axe_ef_id'), (''session'', ArgSession)]"

definition route_create_axe_ef ::
  "table_names \<Rightarrow> database engine \<Rightarrow> string \<Rightarrow> datetime \<Rightarrow> AxeEfCreateUpdate
     \<Rightarrow> (response, database) action" where
  "route_create_axe_ef N E new_uuid now request =
     AxeEfService_call N E new_uuid now ''create_axe_ef''
       [(''request'', ArgRequest request), (''session'', ArgSession)]"

definition route_update_axe_ef ::
  "table_names \<Rightarrow> database engine \<Rightarrow> string \<Rightarrow> datetime \<Rightarrow> string \<Rightarrow> AxeEfCreateUpdate
     \<Rightarrow> (response, database) action" where
  "route_update_axe_ef N E new_uuid now axe_ef_id' request =
     AxeEfService_call N E new_uuid now ''update_axe_ef''
       [(''axe_ef_id'', ArgStr axe_ef_id'), (''request'', ArgRequest request),
        (''session'', ArgSession)]"

definition route_delete_axe_ef ::
  "table_names \<Rightarrow> database engine \<Rightarrow> string \<Rightarrow> datetime \<Rightarrow> string
     \<Rightarrow> (response, database) action" where
  "route_delete_axe_ef N E new_uuid now axe_ef_id' =
     AxeEfService_call N E new_uuid now ''delete_axe_ef''
       [(''axe_ef_id'', ArgStr axe_ef_id'), (''session'', ArgSession)]"

definition route_renew_axe_ef ::
  "table_names \<Rightarrow> database engine \<Rightarrow> string \<Rightarrow> datetime \<Rightarrow> string \<Rightarrow> string
     \<Rightarrow> (response, database) action" where
  "route_renew_axe_ef N E new_uuid now axe_ef_id' service_annuel_id' =
     AxeEfService_call N E new_uuid now ''renew_axe_ef''
       [(''axe_ef_id'', ArgStr axe_ef_id'), (''service_annuel_id'', ArgStr service_annuel_id'),
        (''session'', ArgSession)]"

section \<open>A small database for the examples\<close>

definition example_names :: table_names where
  "example_names =
     \<lparr>ServiceAnnuel_tablename = ''service_annuel'', SectionAxe_tablename = ''section_axe'',
      AxeEf_tablename = ''axe_ef''\<rparr>"

text \<open>An engine that accepts everything and leaves the tables to the ORM operations.\<close>

definition quiet_engine :: "database engine" where
  "quiet_engine = \<lparr>on_execute = (\<lambda>st d. Inr d), on_flush = (\<lambda>d. None), on_commit = (\<lambda>d. None)\<rparr>"

text \<open>An engine whose flush reports the integrity violation it is given.\<close>

definition failing_engine :: "pg_error \<Rightarrow> database engine" where
  "failing_engine orig =
     \<lparr>on_execute = (\<lambda>st d. Inl (IntegrityError orig [(''libelle'', PStr ''Axe 1'')] ''violation'')),
      on_flush = (\<lambda>d. Some (IntegrityError orig [(''libelle'', PStr ''Axe 1'')] ''violation'')),
      on_commit = (\<lambda>d. None)\<rparr>"


definition example_database :: database where
  "example_database =
     \<lparr>service_annuel_rows = [\<lparr>ServiceAnnuel.id' = ''2024''\<rparr>],
      section_axe_rows =
        [\<lparr>onb_tcap = 1, SectionAxe.libelle = ''A'', SectionAxe.service_annuel_id = ''2024''\<rparr>,
         \<lparr>onb_tcap = 2, SectionAxe.libelle = ''B'', SectionAxe.service_annuel_id = ''2024''\<rparr>],
      axe_ef_rows =
        [\<lparr>AxeEf_row.id' = ''x1'', AxeEf_row.libelle = ''Axe 1'', AxeEf_row.description = None,
          AxeEf_row.nature = ''EF'', AxeEf_row.color = ''red'',
          AxeEf_row.service_annuel_id = ''2024'', AxeEf_row.created_at = Some 10,
          AxeEf_row.created_by = Some 7, AxeEf_row.modified_at = None,
          AxeEf_row.modified_by = None\<rparr>,
         \<lparr>AxeEf_row.id' = ''x0'', AxeEf_row.libelle = ''Axe 0'', AxeEf_row.description = None,
          AxeEf_row.nature = ''EF'', AxeEf_row.color = ''blue'',
          AxeEf_row.service_annuel_id = ''2024'', AxeEf_row.created_at = Some 11,
          AxeEf_row.created_by = Some 7, AxeEf_row.modified_at = Some 12,
          AxeEf_row.modified_by = Some 7\<rparr>,
         \<lparr>AxeEf_row.id' = ''x2'', AxeEf_row.libelle = ''Axe 2'', AxeEf_row.description = None,
          AxeEf_row.nature = ''EF'', AxeEf_row.color = ''green'',
          AxeEf_row.service_annuel_id = ''2024'', AxeEf_row.created_at = Some 13,
          AxeEf_row.created_by = Some 7, AxeEf_row.modified_at = None,
          AxeEf_row.modified_by = None\<rparr>],
      axe_ef_section_rows =
        [\<lparr>axe_ef_id = ''x1'', AxeEfSection.section_axe_onb = 1\<rparr>,
         \<lparr>axe_ef_id = ''x1'', AxeEfSection.section_axe_onb = 2\<rparr>,
         \<lparr>axe_ef_id = ''x0'', AxeEfSection.section_axe_onb = 2\<rparr>],
      lvpk_section_axe_rows =
        [\<lparr>LvpkSectionAxe.section_axe_onb = 1, ligne = PStr ''830000'', voie = PStr ''V1'',
          pk_debut = PInt 0, pk_fin = PInt 1200\<rparr>,
         \<lparr>LvpkSectionAxe.section_axe_onb = 2, ligne = PStr ''830000'', voie = PStr ''V2'',
          pk_debut = PInt 1200, pk_fin = PInt 2500\<rparr>]\<rparr>"

definition example_session :: "database session" where
  "example_session = \<lparr>current = example_database, durable = example_database, trace = []\<rparr>"

definition example_request :: "int list \<Rightarrow> AxeEfCreateUpdate" where
  "example_request onbs =
     \<lparr>AxeEfCreateUpdate.libelle = ''Axe 1'', AxeEfCreateUpdate.color = ''red'',
      AxeEfCreateUpdate.nature = ''EF'', AxeEfCreateUpdate.description = None,
      AxeEfCreateUpdate.service_annuel_id = ''2024'', section_axe_onbs = onbs\<rparr>"

definition AxeEfSection_model :: "(database, AxeEfSection) model" where
  "AxeEfSection_model =
     \<lparr>tablename = ''axe_ef_section'',
      id_col = \<lparr>column_key = ''axe_ef_id'', column_value = (\<lambda>r. PUuid (axe_ef_id r))\<rparr>,
      table = axe_ef_section_rows\<rparr>"

definition example_hook :: "pyval list \<Rightarrow> (unit, database) action" where
  "example_hook updated_pe_ids = session_execute quiet_engine (Delete ''hook'' ''id'' updated_pe_ids)"

definition example_payload :: object_to_insert where
  "example_payload =
     OneObject [(''id'', PUuid ''x1''), (''libelle'', PStr ''Axe 1''),
                (''sections'', PList [PDict [(''axe_ef_id'', PUuid ''x1''),
                                            (''section_axe_onb'', PInt 1)]])]"

section \<open>Notions used to state the properties\<close>

text \<open>A column value matches the lookup: it equals the identifier, or one of the list.\<close>

definition lookup_matches :: "pyval \<Rightarrow> pyval \<Rightarrow> bool" where
  "lookup_matches object_id v =
     (case object_id of PList xs \<Rightarrow> list_ex (sql_eq v) xs | _ \<Rightarrow> sql_eq v object_id)"

text \<open>An error without the text of its HTTP detail.\<close>

definition forget_detail :: "exn \<Rightarrow> exn" where
  "forget_detail e = (case e of HTTPException c m \<Rightarrow> HTTPException c [] | _ \<Rightarrow> e)"

text \<open>The sections that the identifiers of a request resolve to.\<close>

definition resolved_sections :: "database \<Rightarrow> int list \<Rightarrow> SectionAxe list" where
  "resolved_sections d onbs = filter (\<lambda>sec. onb_tcap sec \<in> set onbs) (section_axe_rows d)"

text \<open>The section identifiers associated with an axis in a database state.\<close>

definition stored_sections :: "database \<Rightarrow> string \<Rightarrow> int list" where
  "stored_sections d axe_id =
     map AxeEfSection.section_axe_onb (filter (\<lambda>l. axe_ef_id l = axe_id) (axe_ef_section_rows d))"

text \<open>
  An action that issues no commit: whatever the session, it only appends events other
  than a commit to the trace and leaves the committed state alone. An action that commits
  once, at its end: when it returns, the commit is the last event it appended and the only
  one; when it raises, it has issued none.
\<close>

definition issues_no_commit :: "('a, 'db) action \<Rightarrow> bool" where
  "issues_no_commit m =
     (\<forall>s. \<exists>evs. trace (snd (m s)) = trace s @ evs \<and> Commit \<notin> set evs
                  \<and> durable (snd (m s)) = durable s)"

definition commits_once_at_end :: "('a, 'db) action \<Rightarrow> bool" where
  "commits_once_at_end m =
     (\<forall>s. \<exists>evs. Commit \<notin> set evs
            \<and> (case m s of
                  (Inr u, s') \<Rightarrow> trace s' = trace s @ evs @ [Commit] \<and> durable s' = current s'
                | (Inl e, s') \<Rightarrow> trace s' = trace s @ evs \<and> durable s' = durable s))"

section \<open>Properties of the existence verification\<close>

lemma and_then_return [simp]: "and_then (py_return x) f = f x"
  by (rule ext) (simp add: and_then_def py_return_def)

lemma and_then_raise [simp]: "and_then (py_raise e) f = py_raise e"
  by (rule ext) (simp add: and_then_def py_raise_def)

lemma verify_stmt_cases:
  assumes "is_int_str_uuid object_id \<or> (\<exists>xs. object_id = PList xs)"
  shows "\<exists>st. verify_existence_and_get_stmt object_id mdl mc rc lo
                 = Inr (st, \<not> is_int_str_uuid object_id)
     \<and> select_from st = mdl \<and> select_column st = rc
     \<and> whereclause st = (\<lambda>r. lookup_matches object_id
           (column_value (case mc of None \<Rightarrow> id_col mdl | Some c \<Rightarrow> c) r))"
  using assms
  by (cases object_id)
     (auto simp: verify_existence_and_get_stmt_def lookup_matches_def Let_def
           split: option.splits)

text \<open>
  C6, as the code has it. For a lookup by one identifier that returns the whole row, and
  for every lookup by a list of identifiers, the helper raises the not-found error (404)
  exactly when no row of the table matches. An empty list of identifiers matches no row,
  so that lookup always fails with not-found.
\<close>

theorem verify_existence_not_found_iff:
  assumes "is_int_str_uuid object_id \<or> (\<exists>xs. object_id = PList xs)"
    and "returned_column = None \<or> (\<exists>xs. object_id = PList xs)"
  shows "((\<exists>msg. fst (verify_existence_and_get object_id mdl model_column_id returned_column
                        load_options return_model s)
                 = Inl (HTTPException HTTP_404_NOT_FOUND msg))
          \<longleftrightarrow> \<not> list_ex (\<lambda>r. lookup_matches object_id
                                (column_value (case model_column_id of None \<Rightarrow> id_col mdl
                                               | Some c \<Rightarrow> c) r))
                  (table mdl (current s)))
       \<and> (object_id = PList [] \<longrightarrow>
            (\<exists>msg. fst (verify_existence_and_get object_id mdl model_column_id returned_column
                          load_options return_model s)
                   = Inl (HTTPException HTTP_404_NOT_FOUND msg)))"
proof -
  obtain st where st:
    "verify_existence_and_get_stmt object_id mdl model_column_id returned_column load_options
       = Inr (st, \<not> is_int_str_uuid object_id)"
    "select_from st = mdl" "select_column st = returned_column"
    "whereclause st = (\<lambda>r. lookup_matches object_id
           (column_value (case model_column_id of None \<Rightarrow> id_col mdl | Some c \<Rightarrow> c) r))"
    using verify_stmt_cases[OF assms(1)] by blast
  let ?rows = "filter (whereclause st) (table mdl (current s))"
  have empty_iff: "?rows = [] \<longleftrightarrow> \<not> list_ex (whereclause st) (table mdl (current s))"
    by (simp add: list_ex_iff filter_empty_conv)
  have main: "(\<exists>msg. fst (verify_existence_and_get object_id mdl model_column_id returned_column
                        load_options return_model s)
                 = Inl (HTTPException HTTP_404_NOT_FOUND msg)) \<longleftrightarrow> ?rows = []"
  proof (cases "is_int_str_uuid object_id")
    case True
    with assms(2) have rc: "returned_column = None" by (cases object_id) auto
    show ?thesis
      using True st rc
      by (cases ?rows)
         (auto simp: verify_existence_and_get_def scalars_first_def scalars_def Let_def)
  next
    case False
    show ?thesis
      using False st
      by (auto simp: verify_existence_and_get_def scalars_all_def scalars_def Let_def)
  qed
  have "object_id = PList [] \<Longrightarrow> ?rows = []"
    using st(4) by (simp add: lookup_matches_def)
  with main empty_iff st(4) show ?thesis by auto
qed

text \<open>
  The lookup of an axis by an identifier that no row carries: the hypotheses hold, no row
  matches and the helper raises 404.
\<close>

theorem verify_existence_not_found_iff_witness:
  "(is_int_str_uuid (PStr ''x9'') \<or> (\<exists>xs. PStr ''x9'' = PList xs))
   \<and> ((None :: AxeEf Column option) = None \<or> (\<exists>xs. PStr ''x9'' = PList xs))
   \<and> (\<exists>msg. fst (verify_existence_and_get (PStr ''x9'') (AxeEf_model example_names) None None
                     None True example_session)
              = Inl (HTTPException HTTP_404_NOT_FOUND msg))
   \<and> \<not> list_ex (\<lambda>r. lookup_matches (PStr ''x9'') (PUuid (AxeEf_row.id' r)))
          (table (AxeEf_model example_names) (current example_session))"
proof -
  have a: "is_int_str_uuid (PStr ''x9'') \<or> (\<exists>xs. PStr ''x9'' = PList xs)" by simp
  have b: "(None :: AxeEf Column option) = None \<or> (\<exists>xs. PStr ''x9'' = PList xs)" by simp
  have c: "\<not> list_ex (\<lambda>r. lookup_matches (PStr ''x9'') (PUuid (AxeEf_row.id' r)))
          (table (AxeEf_model example_names) (current example_session))"
    by (simp add: AxeEf_model_def example_session_def example_database_def lookup_matches_def
          sql_eq_def load_AxeEf_def AxeEf_row.defs)
  from verify_existence_not_found_iff
         [OF a b, of "AxeEf_model example_names" None None True example_session] c
  show ?thesis by (simp add: AxeEf_model_def)
qed

text \<open>
  C6 as stated fails: a lookup of sections with an empty list of identifiers raises the
  not-found error.
\<close>

theorem verify_existence_empty_list_counterexample:
  "fst (verify_existence_and_get (PList []) (SectionAxe_model example_names)
          (Some SectionAxe_onb_tcap) None None True example_session)
     = Inl (HTTPException 404 ''section_axe with id [] does not exists'')"
  by code_simp

text \<open>
  C5, as the code has it. Without the ignore-not-found mode the asynchronous variant and
  the synchronous helper return the same value when the lookup succeeds and fail with an
  error of the same class and status when it fails; neither changes the session. In the
  ignore-not-found mode, which only the asynchronous variant has, the variant raises no
  HTTP error: where the synchronous helper raises its HTTP error, the variant returns a
  result that is not truthy (no row, an empty list, a falsy value, or nothing when no
  model is to be returned), and in every other case its outcome is that of the helper.
\<close>

theorem verify_variants_agree_up_to_detail:
  "map_sum forget_detail (\<lambda>x. x)
      (fst (async_verify_existence_and_get object_id mdl model_column_id returned_column
              load_options return_model False s))
     = map_sum forget_detail (\<lambda>x. x)
         (fst (verify_existence_and_get object_id mdl model_column_id returned_column
                 load_options return_model s))
   \<and> snd (async_verify_existence_and_get object_id mdl model_column_id returned_column
              load_options return_model ignore_not_found s) = s
   \<and> snd (verify_existence_and_get object_id mdl model_column_id returned_column
              load_options return_model s) = s
   \<and> (\<forall>c msg. fst (async_verify_existence_and_get object_id mdl model_column_id
                      returned_column load_options return_model True s)
               \<noteq> Inl (HTTPException c msg))
   \<and> (case fst (verify_existence_and_get object_id mdl model_column_id returned_column
                    load_options return_model s) of
         Inl (HTTPException c msg) \<Rightarrow>
           (\<exists>r. fst (async_verify_existence_and_get object_id mdl model_column_id
                        returned_column load_options return_model True s) = Inr r
                \<and> \<not> result_truthy r \<and> (return_model \<or> r = ResultNone))
       | outcome \<Rightarrow>
           fst (async_verify_existence_and_get object_id mdl model_column_id
                  returned_column load_options return_model True s) = outcome)"
  by (cases "verify_existence_and_get_stmt object_id mdl model_column_id returned_column
               load_options")
     (auto simp: verify_existence_and_get_def async_verify_existence_and_get_def Let_def
                 forget_detail_def verify_existence_and_get_stmt_def
           split: if_splits option.splits pyval.splits)

text \<open>
  Both variants, asked for an axis that does not exist, fail with status 404; in the
  ignore-not-found mode the asynchronous variant returns nothing.
\<close>

theorem verify_variants_agree_up_to_detail_witness:
  "map_sum forget_detail (\<lambda>x. x)
      (fst (async_verify_existence_and_get (PStr ''x9'') (AxeEf_model example_names) None None
              None True False example_session))
     = Inl (HTTPException 404 [])
   \<and> map_sum forget_detail (\<lambda>x. x)
      (fst (verify_existence_and_get (PStr ''x9'') (AxeEf_model example_names) None None
              None True example_session))
     = Inl (HTTPException 404 [])
   \<and> (\<exists>r. fst (async_verify_existence_and_get (PStr ''x9'') (AxeEf_model example_names) None
                   None None True True example_session) = Inr r
           \<and> \<not> result_truthy r)"
proof -
  have "fst (verify_existence_and_get (PStr ''x9'') (AxeEf_model example_names) None None
              None True example_session)
          = Inl (HTTPException 404 ''axe_ef with id x9 does not exists'')"
    by code_simp
  with verify_variants_agree_up_to_detail
         [of "PStr ''x9''" "AxeEf_model example_names" None None None True example_session]
  show ?thesis by (simp add: forget_detail_def)
qed

text \<open>
  C5 as stated fails: for an axis that does not exist, the asynchronous variant in
  ignore-not-found mode returns nothing where the synchronous helper raises, and without
  that mode the two messages differ.
\<close>

theorem verify_variants_counterexample:
  "fst (async_verify_existence_and_get (PStr ''x9'') (AxeEf_model example_names) None None None
          True True example_session) = Inr ResultNone
   \<and> fst (async_verify_existence_and_get (PStr ''x9'') (AxeEf_model example_names) None None None
          True False example_session)
       = Inl (HTTPException 404 ''axe_ef with id x9 does not exist'')
   \<and> fst (verify_existence_and_get (PStr ''x9'') (AxeEf_model example_names) None None None
          True example_session)
       = Inl (HTTPException 404 ''axe_ef with id x9 does not exists'')"
  by code_simp

section \<open>Properties of the router and of the error translation\<close>

lemma set_default_timezone_durable:
  "durable (snd (set_default_timezone E tz s)) = durable s"
  by (auto simp: set_default_timezone_def and_then_def session_execute_def
        split: sum.splits prod.splits)

lemma async_set_default_timezone_durable:
  "durable (snd (async_set_default_timezone E tz s)) = durable s"
  by (auto simp: async_set_default_timezone_def and_then_def session_execute_def
        split: sum.splits prod.splits)

lemma set_default_timezone_trace:
  "\<exists>evs. trace (snd (set_default_timezone E tz s)) = trace s @ evs
         \<and> set evs \<subseteq> {Execute (Text (''SET TIME ZONE '' @ quoted tz @ '';'')),
                        Execute (Text ''SHOW TIME ZONE;'')}"
proof (cases "on_execute E (Text (''SET TIME ZONE '' @ quoted tz @ '';'')) (current s)")
  case (Inl e)
  then show ?thesis
    by (simp add: set_default_timezone_def and_then_def session_execute_def)
next
  case (Inr d)
  show ?thesis
  proof (cases "on_execute E (Text ''SHOW TIME ZONE;'') d")
    case (Inl e)
    with Inr show ?thesis
      by (intro exI[of _ "[Execute (Text (''SET TIME ZONE '' @ quoted tz @ '';''))]"])
         (simp add: set_default_timezone_def and_then_def session_execute_def)
  next
    case d2: (Inr d')
    with Inr show ?thesis
      by (intro exI[of _ "[Execute (Text (''SET TIME ZONE '' @ quoted tz @ '';'')),
                           Execute (Text ''SHOW TIME ZONE;'')]"])
         (simp add: set_default_timezone_def and_then_def session_execute_def)
  qed
qed

lemma async_set_default_timezone_eq:
  "async_set_default_timezone E tz = set_default_timezone E tz"
  by (simp add: async_set_default_timezone_def set_default_timezone_def)

text \<open>
  C2. The handlers of \<open>POST /api/axe_ef\<close> and \<open>PUT /api/axe_ef/{id}\<close> call the service
  without \<open>user_id\<close>: for every request and every session the call raises \<open>TypeError\<close>
  when the arguments are bound, before the body of the method runs, and the session is
  left as it was. Served through the session dependency, every such request fails: with
  the error of the time zone set-up when that raises, and otherwise with this \<open>TypeError\<close>,
  after which the session is rolled back. Nothing is verified, stamped, flushed or
  committed.
\<close>

theorem route_create_update_missing_user_id:
  "route_create_axe_ef N E new_uuid now request s
     = (Inl (TypeError (''AxeEfService.create_axe_ef() missing 1 required positional argument: ''
                        @ quoted ''user_id'')), s)
   \<and> route_update_axe_ef N E new_uuid now axe_ef_id' request s
     = (Inl (TypeError (''AxeEfService.update_axe_ef() missing 1 required positional argument: ''
                        @ quoted ''user_id'')), s)
   \<and> get_sync_session E tz (route_create_axe_ef N E new_uuid now request) s
     = (case set_default_timezone E tz s of
          (Inl e, s0) \<Rightarrow> (Inl e, s0)
        | (Inr u, s0) \<Rightarrow>
            (Inl (TypeError
                   (''AxeEfService.create_axe_ef() missing 1 required positional argument: ''
                    @ quoted ''user_id'')),
             s0\<lparr>current := durable s0, trace := trace s0 @ [Rollback]\<rparr>))
   \<and> get_sync_session E tz (route_update_axe_ef N E new_uuid now axe_ef_id' request) s
     = (case set_default_timezone E tz s of
          (Inl e, s0) \<Rightarrow> (Inl e, s0)
        | (Inr u, s0) \<Rightarrow>
            (Inl (TypeError
                   (''AxeEfService.update_axe_ef() missing 1 required positional argument: ''
                    @ quoted ''user_id'')),
             s0\<lparr>current := durable s0, trace := trace s0 @ [Rollback]\<rparr>))
   \<and> durable (snd (get_sync_session E tz (route_create_axe_ef N E new_uuid now request) s))
       = durable s
   \<and> durable (snd (get_sync_session E tz
                      (route_update_axe_ef N E new_uuid now axe_ef_id' request) s))
       = durable s
   \<and> (\<exists>evs. trace (snd (get_sync_session E tz
                             (route_create_axe_ef N E new_uuid now request) s))
               = trace s @ evs
            \<and> set evs \<subseteq> {Execute (Text (''SET TIME ZONE '' @ quoted tz @ '';'')),
                           Execute (Text ''SHOW TIME ZONE;''), Rollback})
   \<and> (\<exists>evs. trace (snd (get_sync_session E tz
                             (route_update_axe_ef N E new_uuid now axe_ef_id' request) s))
               = trace s @ evs
            \<and> set evs \<subseteq> {Execute (Text (''SET TIME ZONE '' @ quoted tz @ '';'')),
                           Execute (Text ''SHOW TIME ZONE;''), Rollback})"
proof -
  have c: "route_create_axe_ef N E new_uuid now request
             = py_raise (TypeError
                 (''AxeEfService.create_axe_ef() missing 1 required positional argument: ''
                  @ quoted ''user_id''))"
    by (simp add: route_create_axe_ef_def AxeEfService_call_def bind_arguments_def
          names_text_def digit_char_def)
  have u: "route_update_axe_ef N E new_uuid now axe_ef_id' request
             = py_raise (TypeError
                 (''AxeEfService.update_axe_ef() missing 1 required positional argument: ''
                  @ quoted ''user_id''))"
    by (simp add: route_update_axe_ef_def AxeEfService_call_def bind_arguments_def
          names_text_def digit_char_def)
  obtain evs where evs: "trace (snd (set_default_timezone E tz s)) = trace s @ evs"
    "set evs \<subseteq> {Execute (Text (''SET TIME ZONE '' @ quoted tz @ '';'')),
                  Execute (Text ''SHOW TIME ZONE;'')}"
    using set_default_timezone_trace[of E tz s] by blast
  have tr: "\<exists>evs'. trace (snd (get_sync_session E tz (py_raise e) s)) = trace s @ evs'
              \<and> set evs' \<subseteq> {Execute (Text (''SET TIME ZONE '' @ quoted tz @ '';'')),
                              Execute (Text ''SHOW TIME ZONE;''), Rollback}" for e :: exn
  proof (cases "set_default_timezone E tz s")
    case (Pair r s0)
    show ?thesis
    proof (cases r)
      case (Inl e0)
      with Pair evs show ?thesis
        by (intro exI[of _ evs]) (auto simp: get_sync_session_def)
    next
      case (Inr u0)
      with Pair evs show ?thesis
        by (intro exI[of _ "evs @ [Rollback]"]) (auto simp: get_sync_session_def py_raise_def)
    qed
  qed
  have dur: "durable (snd (get_sync_session E tz (py_raise e) s)) = durable s" for e :: exn
    using set_default_timezone_durable[of E tz s]
    by (auto simp: get_sync_session_def py_raise_def split: prod.splits sum.splits)
  have served: "get_sync_session E tz (py_raise e) s
                  = (case set_default_timezone E tz s of
                       (Inl e0, s0) \<Rightarrow> (Inl e0, s0)
                     | (Inr u0, s0) \<Rightarrow>
                         (Inl e, s0\<lparr>current := durable s0, trace := trace s0 @ [Rollback]\<rparr>))"
    for e :: exn
    by (auto simp: get_sync_session_def py_raise_def split: prod.splits sum.splits)
  show ?thesis
    unfolding c u
    by (intro conjI served dur tr) (simp_all add: py_raise_def)
qed

text \<open>The two requests on the example database, with a time zone set-up that succeeds.\<close>

theorem route_create_update_missing_user_id_witness:
  "get_sync_session quiet_engine ''Europe/Paris''
     (route_create_axe_ef example_names quiet_engine ''n1'' 20 (example_request [1, 2]))
     example_session
     = (Inl (TypeError (''AxeEfService.create_axe_ef() missing 1 required positional argument: ''
                        @ quoted ''user_id'')),
        example_session
          \<lparr>trace := [Execute (Text (''SET TIME ZONE '' @ quoted ''Europe/Paris'' @ '';'')),
                     Execute (Text ''SHOW TIME ZONE;''), Rollback]\<rparr>)
   \<and> durable (snd (get_sync_session quiet_engine ''Europe/Paris''
                      (route_update_axe_ef example_names quiet_engine ''n1'' 20 ''x1''
                         (example_request [1])) example_session)) = example_database"
proof -
  have z: "set_default_timezone quiet_engine ''Europe/Paris'' example_session
             = (Inr (),
                example_session
                  \<lparr>trace := [Execute (Text (''SET TIME ZONE '' @ quoted ''Europe/Paris'' @ '';'')),
                             Execute (Text ''SHOW TIME ZONE;'')]\<rparr>)"
    by (simp add: set_default_timezone_def and_then_def session_execute_def quiet_engine_def
          example_session_def)
  from route_create_update_missing_user_id
         [of example_names quiet_engine "''n1''" 20 "example_request [1, 2]" example_session
             "''x1''" "''Europe/Paris''"]
       route_create_update_missing_user_id
         [of example_names quiet_engine "''n1''" 20 "example_request [1]" example_session
             "''x1''" "''Europe/Paris''"]
  show ?thesis
    unfolding z by (simp add: example_session_def)
qed

text \<open>
  C10, as the code has it. The handler of \<open>POST /api/axe_ef/renew/{id}\<close> looks up
  \<open>renew_axe_ef\<close> on the class, which does not define it: for every request and every
  session the lookup raises \<open>AttributeError\<close> and the handler leaves the session as it was.
  Served through the session dependency, the request fails with the error of the time zone
  set-up when that raises, and otherwise with this \<open>AttributeError\<close>, after which the
  session is rolled back; the statements of the set-up are the only ones that reach the
  database, and the committed state is unchanged.
\<close>

theorem route_renew_attribute_error:
  "route_renew_axe_ef N E new_uuid now axe_ef_id' service_annuel_id' s
     = (Inl (AttributeError (''type object '' @ quoted ''AxeEfService''
                              @ '' has no attribute '' @ quoted ''renew_axe_ef'')), s)
   \<and> get_async_session E tz
        (route_renew_axe_ef N E new_uuid now axe_ef_id' service_annuel_id') s
     = (case async_set_default_timezone E tz s of
          (Inl e, s0) \<Rightarrow> (Inl e, s0)
        | (Inr u, s0) \<Rightarrow>
            (Inl (AttributeError (''type object '' @ quoted ''AxeEfService''
                                   @ '' has no attribute '' @ quoted ''renew_axe_ef'')),
             s0\<lparr>current := durable s0, trace := trace s0 @ [Rollback]\<rparr>))
   \<and> durable (snd (get_async_session E tz
                      (route_renew_axe_ef N E new_uuid now axe_ef_id' service_annuel_id') s))
       = durable s
   \<and> (\<exists>evs. trace (snd (get_async_session E tz
                             (route_renew_axe_ef N E new_uuid now axe_ef_id' service_annuel_id')
                             s))
               = trace s @ evs
            \<and> set evs \<subseteq> {Execute (Text (''SET TIME ZONE '' @ quoted tz @ '';'')),
                           Execute (Text ''SHOW TIME ZONE;''), Rollback})"
proof -
  have r: "route_renew_axe_ef N E new_uuid now axe_ef_id' service_annuel_id'
             = py_raise (AttributeError (''type object '' @ quoted ''AxeEfService''
                                          @ '' has no attribute '' @ quoted ''renew_axe_ef''))"
    by (simp add: route_renew_axe_ef_def AxeEfService_call_def)
  let ?e = "AttributeError (''type object '' @ quoted ''AxeEfService''
                             @ '' has no attribute '' @ quoted ''renew_axe_ef'')"
  obtain evs where evs: "trace (snd (async_set_default_timezone E tz s)) = trace s @ evs"
    "set evs \<subseteq> {Execute (Text (''SET TIME ZONE '' @ quoted tz @ '';'')),
                  Execute (Text ''SHOW TIME ZONE;'')}"
    using set_default_timezone_trace[of E tz s]
    unfolding async_set_default_timezone_eq by blast
  have tr: "\<exists>evs'. trace (snd (get_async_session E tz (py_raise ?e) s)) = trace s @ evs'
              \<and> set evs' \<subseteq> {Execute (Text (''SET TIME ZONE '' @ quoted tz @ '';'')),
                              Execute (Text ''SHOW TIME ZONE;''), Rollback}"
  proof (cases "async_set_default_timezone E tz s")
    case (Pair r0 s0)
    show ?thesis
    proof (cases r0)
      case (Inl e0)
      with Pair evs show ?thesis
        by (intro exI[of _ evs]) (auto simp: get_async_session_def)
    next
      case (Inr u0)
      with Pair evs show ?thesis
        by (intro exI[of _ "evs @ [Rollback]"]) (auto simp: get_async_session_def py_raise_def)
    qed
  qed
  have dur: "durable (snd (get_async_session E tz (py_raise ?e) s)) = durable s"
    using async_set_default_timezone_durable[of E tz s]
    by (auto simp: get_async_session_def py_raise_def split: prod.splits sum.splits)
  have served: "get_async_session E tz (py_raise ?e) s
                  = (case async_set_default_timezone E tz s of
                       (Inl e0, s0) \<Rightarrow> (Inl e0, s0)
                     | (Inr u0, s0) \<Rightarrow>
                         (Inl ?e, s0\<lparr>current := durable s0, trace := trace s0 @ [Rollback]\<rparr>))"
    by (auto simp: get_async_session_def py_raise_def split: prod.splits sum.splits)
  show ?thesis
    unfolding r
    by (intro conjI served dur tr) (simp add: py_raise_def)
qed

text \<open>The renew request on the example database, with a time zone set-up that succeeds.\<close>

theorem route_renew_attribute_error_witness:
  "fst (get_async_session quiet_engine ''Europe/Paris''
          (route_renew_axe_ef example_names quiet_engine ''n1'' 20 ''x1'' ''2025'')
          example_session)
     = Inl (AttributeError (''type object '' @ quoted ''AxeEfService''
                              @ '' has no attribute '' @ quoted ''renew_axe_ef''))
   \<and> durable (snd (get_async_session quiet_engine ''Europe/Paris''
                      (route_renew_axe_ef example_names quiet_engine ''n1'' 20 ''x1'' ''2025'')
                      example_session)) = example_database"
proof -
  have z: "async_set_default_timezone quiet_engine ''Europe/Paris'' example_session
             = (Inr (),
                example_session
                  \<lparr>trace := [Execute (Text (''SET TIME ZONE '' @ quoted ''Europe/Paris'' @ '';'')),
                             Execute (Text ''SHOW TIME ZONE;'')]\<rparr>)"
    by (simp add: async_set_default_timezone_def and_then_def session_execute_def
          quiet_engine_def example_session_def)
  from route_renew_attribute_error
         [of example_names quiet_engine "''n1''" 20 "''x1''" "''2025''" example_session
             "''Europe/Paris''"]
  show ?thesis
    unfolding z by (simp add: example_session_def)
qed

text \<open>
  C10 as stated fails: a renew request does reach the database. Before the handler runs,
  the session dependency executes \<open>SET TIME ZONE\<close> and \<open>SHOW TIME ZONE\<close>.
\<close>

theorem route_renew_reaches_database_counterexample:
  "trace (snd (get_async_session quiet_engine ''Europe/Paris''
                 (route_renew_axe_ef example_names quiet_engine ''n1'' 20 ''x1'' ''2025'')
                 example_session))
     = [Execute (Text (''SET TIME ZONE '' @ quoted ''Europe/Paris'' @ '';'')),
        Execute (Text ''SHOW TIME ZONE;''), Rollback]"
  by code_simp




section \<open>Properties of the axis service\<close>

lemma verify_existence_keeps_session:
  "snd (verify_existence_and_get object_id mdl mc rc lo rm s) = s"
  by (simp add: verify_existence_and_get_def Let_def split: sum.splits prod.splits)

lemma verify_existence_list_result:
  assumes "verify_existence_and_get (PList xs) mdl (Some c) None lo True s = (Inr r, s')"
  shows "s' = s \<and> r = ResultAll (map Entity (filter (\<lambda>row. list_ex (sql_eq (column_value c row)) xs)
                                                (table mdl (current s))))
         \<and> filter (\<lambda>row. list_ex (sql_eq (column_value c row)) xs) (table mdl (current s)) \<noteq> []"
  using assms
  by (auto simp: verify_existence_and_get_def verify_existence_and_get_stmt_def Let_def
        scalars_all_def scalars_def split: if_splits option.splits)

lemma verify_existence_list_error:
  assumes "verify_existence_and_get (PList xs) mdl (Some c) None lo True s = (Inl e, s')"
  shows "s' = s \<and> (\<exists>msg. e = HTTPException 404 msg)"
  using assms
  by (auto simp: verify_existence_and_get_def verify_existence_and_get_stmt_def Let_def
        scalars_all_def scalars_def HTTP_404_NOT_FOUND_def split: if_splits option.splits)

lemma entities_map_Entity: "entities (ResultAll (map Entity rows)) = rows"
  by (induction rows) auto

lemma sql_eq_PInt [simp]: "sql_eq (PInt a) (PInt b) \<longleftrightarrow> a = b"
  by (auto simp: sql_eq_def)

lemma list_ex_sql_eq_PInt [simp]: "list_ex (sql_eq (PInt a)) (map PInt onbs) \<longleftrightarrow> a \<in> set onbs"
  by (induction onbs) auto

lemma make_axe_ef_Inr:
  assumes "make_axe_ef N now request user_id is_new s = (Inr d, s')"
  shows "s' = s
     \<and> axe_ef_dict.sections d = resolved_sections (current s) (section_axe_onbs request)
     \<and> resolved_sections (current s) (section_axe_onbs request) \<noteq> []"
proof -
  obtain r0 where v1: "verify_existence_and_get (PStr (AxeEfCreateUpdate.service_annuel_id request))
                 (ServiceAnnuel_model N) None None None False s = (Inr r0, s)"
    using assms verify_existence_keeps_session[of "PStr (AxeEfCreateUpdate.service_annuel_id request)" "ServiceAnnuel_model N" None None None False s]
    by (cases "verify_existence_and_get (PStr (AxeEfCreateUpdate.service_annuel_id request))
                 (ServiceAnnuel_model N) None None None False s")
       (auto simp: make_axe_ef_def and_then_def split: sum.splits)
  obtain r1 s1 where v2: "verify_existence_and_get (PList (map PInt (section_axe_onbs request)))
                            (SectionAxe_model N) (Some SectionAxe_onb_tcap) None None True s = (Inr r1, s1)"
    using assms v1
    by (cases "verify_existence_and_get (PList (map PInt (section_axe_onbs request)))
                            (SectionAxe_model N) (Some SectionAxe_onb_tcap) None None True s")
       (auto simp: make_axe_ef_def and_then_def Let_def split: sum.splits)
  from verify_existence_list_result[OF v2]
  have r1: "s1 = s" "r1 = ResultAll (map Entity (resolved_sections (current s) (section_axe_onbs request)))"
    "resolved_sections (current s) (section_axe_onbs request) \<noteq> []"
    by (auto simp: resolved_sections_def SectionAxe_model_def SectionAxe_onb_tcap_def)
  show ?thesis
    using assms v1 v2 r1
    by (auto simp: make_axe_ef_def and_then_def Let_def validate_sections_def py_raise_def
          py_return_def entities_map_Entity simp del: entities.simps split: if_splits)
qed

lemma make_axe_ef_empty_sections:
  assumes "section_axe_onbs request = []"
  shows "\<exists>msg. make_axe_ef N now request user_id is_new s = (Inl (HTTPException 404 msg), s)"
proof -
  have "\<exists>msg. verify_existence_and_get (PList (map PInt (section_axe_onbs request)))
                            (SectionAxe_model N) (Some SectionAxe_onb_tcap) None None True s
           = (Inl (HTTPException 404 msg), s)"
    using assms
    by (simp add: verify_existence_and_get_def verify_existence_and_get_stmt_def Let_def
        scalars_all_def scalars_def HTTP_404_NOT_FOUND_def)
  moreover have "(\<exists>msg. verify_existence_and_get (PStr (AxeEfCreateUpdate.service_annuel_id request))
                 (ServiceAnnuel_model N) None None None False s = (Inl (HTTPException 404 msg), s))
       \<or> (\<exists>r. verify_existence_and_get (PStr (AxeEfCreateUpdate.service_annuel_id request))
                 (ServiceAnnuel_model N) None None None False s = (Inr r, s))"
    by (auto simp: verify_existence_and_get_def verify_existence_and_get_stmt_def Let_def
          HTTP_404_NOT_FOUND_def)
  ultimately show ?thesis
    by (auto simp: make_axe_ef_def and_then_def Let_def)
qed

text \<open>
  C1 on the code. A create and an update whose section list is empty, for a service period
  and an axis that exist: the lookup of the sections raises the not-found error (404)
  before \<open>_validate_sections\<close> is reached, so the validation error (400) that says no
  sections were specified is never produced. Nothing is persisted.
\<close>

theorem empty_section_list_raises_not_found:
  "create_axe_ef example_names quiet_engine ''n1'' 20 (example_request []) 7 example_session
     = (Inl (HTTPException 404 ''section_axe with id [] does not exists''), example_session)
   \<and> update_axe_ef example_names quiet_engine 20 ''x1'' (example_request []) 7 example_session
     = (Inl (HTTPException 404 ''section_axe with id [] does not exists''), example_session)"
  by code_simp

lemma id_load_AxeEf [simp]: "AxeEf_row.id' (load_AxeEf d r) = AxeEf_row.id' r"
  by (simp add: load_AxeEf_def AxeEf_row.defs)

lemma sql_eq_PUuid_PStr [simp]: "sql_eq (PUuid a) (PStr b) \<longleftrightarrow> a = b"
  by (auto simp: sql_eq_def)

lemma verify_axe_ef_Inr:
  assumes "verify_existence_and_get (PStr i) (AxeEf_model N) None None lo True s = (Inr r, s')"
  shows "s' = s \<and> (\<exists>a. r = ResultFirst (Entity a) \<and> AxeEf_row.id' a = i
                       \<and> list_ex (\<lambda>row. AxeEf_row.id' row = i) (axe_ef_rows (current s)))"
proof -
  let ?rows = "filter (\<lambda>a. AxeEf_row.id' a = i) (map (load_AxeEf (current s)) (axe_ef_rows (current s)))"
  have "?rows \<noteq> [] \<Longrightarrow> AxeEf_row.id' (hd ?rows) = i"
    using hd_in_set[of ?rows] by auto
  moreover have "?rows \<noteq> [] \<Longrightarrow> list_ex (\<lambda>row. AxeEf_row.id' row = i) (axe_ef_rows (current s))"
    by (auto simp: list_ex_iff filter_empty_conv)
  ultimately show ?thesis
    using assms
    by (cases ?rows)
       (auto simp: verify_existence_and_get_def verify_existence_and_get_stmt_def Let_def
          scalars_first_def scalars_def AxeEf_model_def split: if_splits option.splits)
qed

lemma commit_and_log_session_Inr:
  assumes "commit_and_log_session E tn op s = (Inr u, s')"
  shows "s' = s\<lparr>durable := current s, trace := trace s @ [Flush, Commit]\<rparr>"
  using assms
  by (auto simp: commit_and_log_session_def and_then_def session_flush_def session_commit_def
        split: option.splits sum.splits exn.splits if_splits)

lemma commit_and_log_session_Inl:
  assumes "commit_and_log_session E tn op s = (Inl e, s')"
  shows "durable s' = durable s \<and> current s' = current s
         \<and> (trace s' = trace s \<or> trace s' = trace s @ [Flush])"
  using assms
  by (auto simp: commit_and_log_session_def and_then_def session_flush_def session_commit_def
        Let_def split: option.splits sum.splits exn.splits if_splits)

lemma update_procedure_Inr:
  assumes "update_procedure E N obj old s = (Inr u, s')"
    and "list_ex (\<lambda>r. AxeEf_row.id' r = AxeEf_row.id' obj) (axe_ef_rows (current s))"
  shows "durable s' = current s'
     \<and> axe_ef_section_rows (current s')
         = filter (\<lambda>l. axe_ef_id l \<noteq> AxeEf_row.id' obj)
             (filter (\<lambda>l. axe_ef_id l \<noteq> AxeEf_row.id' old) (axe_ef_section_rows (current s)))
           @ links obj
     \<and> trace s' = trace s @ [Flush, Flush, Commit]"
proof -
  let ?s1 = "s\<lparr>current := (current s)
                 \<lparr>axe_ef_section_rows :=
                    filter (\<lambda>l. axe_ef_id l \<noteq> AxeEf_row.id' old) (axe_ef_section_rows (current s))\<rparr>\<rparr>"
  let ?s2 = "?s1\<lparr>trace := trace s @ [Flush]\<rparr>"
  obtain s3 where m: "session_merge obj ?s2 = (Inr obj, s3)"
    and s3: "axe_ef_section_rows (current s3)
         = filter (\<lambda>l. axe_ef_id l \<noteq> AxeEf_row.id' obj)
             (filter (\<lambda>l. axe_ef_id l \<noteq> AxeEf_row.id' old) (axe_ef_section_rows (current s)))
           @ links obj" "trace s3 = trace s @ [Flush]"
    using assms(2) by (simp add: session_merge_def)
  have "commit_and_log_session E (AxeEf_tablename N) CrudOperation_update s3 = (Inr u, s')"
    using assms(1) m
    by (auto simp: update_procedure_def and_then_def sections_clear_def session_flush_def
          split: option.splits)
  from commit_and_log_session_Inr[OF this] s3 show ?thesis by simp
qed

lemma links_onbs: "map AxeEfSection.section_axe_onb (links obj) = map onb_tcap (AxeEf.sections obj)"
  by (simp add: links_def comp_def)

lemma links_ids: "l \<in> set (links obj) \<Longrightarrow> axe_ef_id l = AxeEf_row.id' obj"
  by (auto simp: links_def)

lemma AxeEf_init_simps [simp]:
  "AxeEf_row.id' (AxeEf_init i d) = i" "AxeEf.sections (AxeEf_init i d) = axe_ef_dict.sections d"
  by (simp_all add: AxeEf_init_def)

text \<open>
  The part of the update that works: when an update succeeds and every section identifier
  of the request names an existing section, the associations stored for the axis
  afterwards are exactly the identifiers of the request, whatever was stored before, and
  the update has flushed twice and committed once.
\<close>

lemma update_replaces_sections:
  assumes "update_axe_ef N E now axe_ef_id' request user_id s = (Inr resp, s')"
    and "set (section_axe_onbs request) \<subseteq> onb_tcap ` set (section_axe_rows (current s))"
  shows "set (stored_sections (durable s') axe_ef_id') = set (section_axe_onbs request)
     \<and> trace s' = trace s @ [Flush, Flush, Commit]
     \<and> resp = UpdatedResponse axe_ef_id'"
proof -
  obtain r where v: "verify_existence_and_get (PStr axe_ef_id') (AxeEf_model N) None None None True s
                       = (Inr r, s)"
    using assms(1) verify_existence_keeps_session[of "PStr axe_ef_id'" "AxeEf_model N" None None None True s]
    by (cases "verify_existence_and_get (PStr axe_ef_id') (AxeEf_model N) None None None True s")
       (auto simp: update_axe_ef_def and_then_def split: sum.splits)
  from verify_axe_ef_Inr[OF v] obtain old where old:
    "r = ResultFirst (Entity old)" "AxeEf_row.id' old = axe_ef_id'"
    "list_ex (\<lambda>row. AxeEf_row.id' row = axe_ef_id') (axe_ef_rows (current s))"
    by blast
  obtain d where mk: "make_axe_ef N now request user_id False s = (Inr d, s)"
    using assms(1) v old(1)
    by (cases "make_axe_ef N now request user_id False s")
       (auto simp: update_axe_ef_def and_then_def split: sum.splits dest: make_axe_ef_Inr)
  from make_axe_ef_Inr[OF mk]
  have secs: "axe_ef_dict.sections d = resolved_sections (current s) (section_axe_onbs request)"
    by simp
  obtain u where up: "update_procedure E N (AxeEf_init axe_ef_id' d) old s = (Inr u, s')"
    and resp: "resp = UpdatedResponse axe_ef_id'"
    using assms(1) v old(1) mk
    by (cases "update_procedure E N (AxeEf_init axe_ef_id' d) old s")
       (auto simp: update_axe_ef_def and_then_def Let_def py_return_def split: sum.splits)
  from update_procedure_Inr[OF up] old(3)
  have fin: "durable s' = current s'"
    "axe_ef_section_rows (current s')
       = filter (\<lambda>l. axe_ef_id l \<noteq> axe_ef_id')
           (filter (\<lambda>l. axe_ef_id l \<noteq> AxeEf_row.id' old) (axe_ef_section_rows (current s)))
         @ links (AxeEf_init axe_ef_id' d)"
    "trace s' = trace s @ [Flush, Flush, Commit]"
    by simp_all
  have ids: "\<forall>l \<in> set (links (AxeEf_init axe_ef_id' d)). axe_ef_id l = axe_ef_id'"
    by (auto dest: links_ids)
  have "{l \<in> set (axe_ef_section_rows (durable s')). axe_ef_id l = axe_ef_id'}
          = set (links (AxeEf_init axe_ef_id' d))"
    using fin(1,2) ids by auto
  then have "set (stored_sections (durable s') axe_ef_id')
          = AxeEfSection.section_axe_onb ` set (links (AxeEf_init axe_ef_id' d))"
    by (simp add: stored_sections_def)
  also have "\<dots> = set (map onb_tcap (resolved_sections (current s) (section_axe_onbs request)))"
    using links_onbs[of "AxeEf_init axe_ef_id' d"] secs
    by (metis AxeEf_init_simps(2) set_map)
  also have "\<dots> = set (section_axe_onbs request)"
    using assms(2) by (auto simp: resolved_sections_def)
  finally show ?thesis using fin(3) resp by simp
qed


text \<open>The axis \<open>x1\<close> holds the sections 1 and 2; an update with section 1 leaves exactly 1.\<close>

lemma update_replaces_sections_example:
  "set (section_axe_onbs (example_request [1]))
     \<subseteq> onb_tcap ` set (section_axe_rows (current example_session))
   \<and> stored_sections (durable example_session) ''x1'' = [1, 2]
   \<and> set (stored_sections
            (durable (snd (update_axe_ef example_names quiet_engine 20 ''x1''
                             (example_request [1]) 7 example_session))) ''x1'') = {1}
   \<and> trace (snd (update_axe_ef example_names quiet_engine 20 ''x1''
                    (example_request [1]) 7 example_session)) = [Flush, Flush, Commit]"
proof -
  have r: "fst (update_axe_ef example_names quiet_engine 20 ''x1'' (example_request [1]) 7
                  example_session) = Inr (UpdatedResponse ''x1'')"
    by code_simp
  have a: "update_axe_ef example_names quiet_engine 20 ''x1'' (example_request [1]) 7 example_session
             = (Inr (UpdatedResponse ''x1''),
                snd (update_axe_ef example_names quiet_engine 20 ''x1'' (example_request [1]) 7
                       example_session))"
    using r by (metis prod.collapse)
  have b: "set (section_axe_onbs (example_request [1]))
             \<subseteq> onb_tcap ` set (section_axe_rows (current example_session))"
    by (simp add: example_request_def example_session_def example_database_def)
  have c: "stored_sections (durable example_session) ''x1'' = [1, 2]"
    by (simp add: stored_sections_def example_session_def example_database_def)
  from update_replaces_sections[OF a b] b c show ?thesis
    by (simp add: example_request_def example_session_def)
qed

text \<open>
  C3 on the code. The axis \<open>x1\<close> holds the sections 1 and 2. An update with the
  identifiers 1 and 99, of which only 1 names a section, is not refused: it succeeds and
  stores the association with 1 alone, so the stored set is not the set of the request.
\<close>

theorem update_drops_unknown_section:
  "fst (update_axe_ef example_names quiet_engine 20 ''x1'' (example_request [1, 99]) 7
          example_session) = Inr (UpdatedResponse ''x1'')
   \<and> stored_sections
         (durable (snd (update_axe_ef example_names quiet_engine 20 ''x1''
                          (example_request [1, 99]) 7 example_session))) ''x1'' = [1]
   \<and> section_axe_onbs (example_request [1, 99]) = [1, 99]"
  by code_simp

lemma verify_existence_single_error:
  assumes "verify_existence_and_get (PStr i) mdl None None lo rm s = (Inl e, s')"
  shows "s' = s \<and> (\<exists>msg. e = HTTPException 404 msg)"
  using assms
  by (auto simp: verify_existence_and_get_def verify_existence_and_get_stmt_def Let_def
        HTTP_404_NOT_FOUND_def split: if_splits option.splits)

lemma create_axe_ef_empty_sections:
  assumes "section_axe_onbs request = []"
  shows "\<exists>msg. create_axe_ef N E new_uuid now request user_id s
                 = (Inl (HTTPException 404 msg), s)"
  using make_axe_ef_empty_sections[OF assms, of N now user_id True s]
  by (auto simp: create_axe_ef_def and_then_def Let_def)

lemma update_axe_ef_empty_sections:
  assumes "section_axe_onbs request = []"
  shows "\<exists>msg. update_axe_ef N E now axe_ef_id' request user_id s
                 = (Inl (HTTPException 404 msg), s)"
proof (cases "verify_existence_and_get (PStr axe_ef_id') (AxeEf_model N) None None None True s")
  case (Pair r s1)
  show ?thesis
  proof (cases r)
    case (Inl e)
    with Pair verify_existence_single_error[of axe_ef_id' "AxeEf_model N" None True s e s1]
    show ?thesis by (auto simp: update_axe_ef_def and_then_def)
  next
    case (Inr res)
    with Pair verify_axe_ef_Inr[of axe_ef_id' N None s res s1]
    obtain old where "s1 = s" "res = ResultFirst (Entity old)" by auto
    with Pair Inr make_axe_ef_empty_sections[OF assms, of N now user_id False s]
    show ?thesis by (auto simp: update_axe_ef_def and_then_def)
  qed
qed

lemma make_axe_ef_never_reports_empty_selection:
  "fst (make_axe_ef N now request user_id is_new s)
     \<noteq> Inl (HTTPException 400
              (''No TCAP sections axes were specified.'' @ [CHR 0x0A]
               @ ''Please select at least one valid section on the specified SA ''
               @ AxeEfCreateUpdate.service_annuel_id request))"
proof (cases "make_axe_ef N now request user_id is_new s")
  case (Pair r s1)
  show ?thesis
  proof (cases "verify_existence_and_get (PStr (AxeEfCreateUpdate.service_annuel_id request))
                 (ServiceAnnuel_model N) None None None False s")
    case v1: (Pair r1 s2)
    show ?thesis
    proof (cases r1)
      case (Inl e)
      with v1 verify_existence_single_error[of "AxeEfCreateUpdate.service_annuel_id request"
                 "ServiceAnnuel_model N" None False s e s2]
      show ?thesis by (auto simp: make_axe_ef_def and_then_def)
    next
      case (Inr x)
      have s2: "s2 = s"
        using v1 verify_existence_keeps_session[of "PStr (AxeEfCreateUpdate.service_annuel_id request)"
                 "ServiceAnnuel_model N" None None None False s] by simp
      show ?thesis
      proof (cases "verify_existence_and_get (PList (map PInt (section_axe_onbs request)))
                            (SectionAxe_model N) (Some SectionAxe_onb_tcap) None None True s")
        case v2: (Pair r2 s3)
        show ?thesis
        proof (cases r2)
          case (Inl e)
          with v1 Inr s2 v2 verify_existence_list_error[of "map PInt (section_axe_onbs request)"
                   "SectionAxe_model N" SectionAxe_onb_tcap None s e s3]
          show ?thesis by (auto simp: make_axe_ef_def and_then_def Let_def)
        next
          case r2: (Inr res)
          from verify_existence_list_result[of "map PInt (section_axe_onbs request)"
                   "SectionAxe_model N" SectionAxe_onb_tcap None s res s3] v2 r2
          obtain rows where "s3 = s" "res = ResultAll (map Entity rows)" "rows \<noteq> []"
            by auto
          with v1 Inr s2 v2 r2 show ?thesis
            by (auto simp: make_axe_ef_def and_then_def Let_def validate_sections_def
                  py_raise_def py_return_def entities_map_Entity
                simp del: entities.simps)
        qed
      qed
    qed
  qed
qed

section \<open>Properties of the batch upsert\<close>

lemma nc_return: "issues_no_commit (py_return x)"
  by (simp add: issues_no_commit_def py_return_def)

lemma nc_raise: "issues_no_commit (py_raise e)"
  by (simp add: issues_no_commit_def py_raise_def)

lemma nc_and_then:
  assumes "issues_no_commit m" and "\<And>x. issues_no_commit (f x)"
  shows "issues_no_commit (and_then m f)"
  unfolding issues_no_commit_def
proof
  fix s
  obtain evs where m: "trace (snd (m s)) = trace s @ evs" "Commit \<notin> set evs"
    "durable (snd (m s)) = durable s"
    using assms(1) unfolding issues_no_commit_def by blast
  show "\<exists>evs. trace (snd (and_then m f s)) = trace s @ evs \<and> Commit \<notin> set evs
             \<and> durable (snd (and_then m f s)) = durable s"
  proof (cases "m s")
    case (Pair r s1)
    show ?thesis
    proof (cases r)
      case (Inl e)
      with Pair m show ?thesis by (auto simp: and_then_def)
    next
      case (Inr x)
      obtain evs2 where f: "trace (snd (f x s1)) = trace s1 @ evs2" "Commit \<notin> set evs2"
        "durable (snd (f x s1)) = durable s1"
        using assms(2)[of x] unfolding issues_no_commit_def by blast
      have "trace (snd (and_then m f s)) = trace s @ (evs @ evs2)"
        using Pair Inr m f by (simp add: and_then_def)
      moreover have "Commit \<notin> set (evs @ evs2)" using m f by simp
      moreover have "durable (snd (and_then m f s)) = durable s"
        using Pair Inr m f by (simp add: and_then_def)
      ultimately show ?thesis by blast
    qed
  qed
qed

lemma nc_execute: "issues_no_commit (session_execute E st)"
  unfolding issues_no_commit_def
proof
  fix s
  show "\<exists>evs. trace (snd (session_execute E st s)) = trace s @ evs \<and> Commit \<notin> set evs
             \<and> durable (snd (session_execute E st s)) = durable s"
    by (cases "on_execute E st (current s)") (auto simp: session_execute_def)
qed

lemma nc_verify: "issues_no_commit (verify_existence_and_get oid mdl mc rc lo rm)"
  by (auto simp: issues_no_commit_def verify_existence_and_get_def Let_def
        split: sum.splits prod.splits)

lemma nc_execute_stmt: "issues_no_commit (execute_stmt E st mdl)"
  unfolding issues_no_commit_def
proof
  fix s
  obtain evs where e: "trace (snd (session_execute E st s)) = trace s @ evs" "Commit \<notin> set evs"
    "durable (snd (session_execute E st s)) = durable s"
    using nc_execute[of E st] unfolding issues_no_commit_def by blast
  have "snd (execute_stmt E st mdl s) = snd (session_execute E st s)"
    by (auto simp: execute_stmt_def split: prod.splits sum.splits exn.splits)
  with e show "\<exists>evs. trace (snd (execute_stmt E st mdl s)) = trace s @ evs \<and> Commit \<notin> set evs
             \<and> durable (snd (execute_stmt E st mdl s)) = durable s"
    by auto
qed

lemma nc_delete_object: "issues_no_commit (delete_object E ids md mr mc)"
  unfolding delete_object_def
  by (intro nc_and_then nc_verify) (simp add: Let_def nc_execute)

lemma nc_insert_sub_objects: "issues_no_commit (insert_sub_objects E subs)"
proof (induction subs)
  case Nil
  show ?case by (simp add: nc_return)
next
  case (Cons p subs)
  obtain mdl objs where p: "p = (mdl, objs)" by (cases p)
  show ?case
    unfolding p insert_sub_objects.simps
    by (intro nc_and_then) (simp_all add: nc_execute nc_return Cons.IH)
qed

lemma nc_insert_procedure: "issues_no_commit (insert_procedure E mm obj subs idc du)"
proof -
  obtain sub_objects remaining where p: "pop_sub_objects subs obj = (sub_objects, remaining)"
    by (cases "pop_sub_objects subs obj")
  show ?thesis
    unfolding insert_procedure_def Let_def p prod.case
    by (intro nc_and_then nc_execute_stmt nc_insert_sub_objects nc_return)
qed

lemma nc_insert_each: "issues_no_commit (insert_each E mm objs subs idc du ids)"
proof (induction objs arbitrary: ids)
  case Nil
  show ?case by (simp add: nc_return)
next
  case (Cons obj objs)
  show ?case
    unfolding insert_each.simps
    by (intro nc_and_then nc_insert_procedure Cons.IH)
qed

lemma nc_multiple_insert_procedure:
  "issues_no_commit (multiple_insert_procedure E mm payload subs idc du)"
proof (cases payload)
  case (OneObject obj)
  show ?thesis
    unfolding multiple_insert_procedure_def Let_def OneObject object_to_insert.case
    by (intro nc_and_then nc_insert_procedure nc_return)
next
  case (ObjectList objs)
  show ?thesis
    unfolding multiple_insert_procedure_def ObjectList object_to_insert.case
    by (intro nc_and_then nc_insert_each nc_return)
qed

lemma nc_delete_sub_objects:
  assumes "case execute_after_delete of None \<Rightarrow> True
           | Some hook \<Rightarrow> \<forall>ids. issues_no_commit (hook ids)"
  shows "issues_no_commit (delete_sub_objects E ids mm cols execute_after_insert
            execute_after_delete subs)"
proof (induction subs)
  case Nil
  show ?case by (simp add: nc_return)
next
  case (Cons p subs)
  obtain key sub_model where p: "p = (key, sub_model)" by (cases p)
  have hook: "issues_no_commit
                (if execute_after_insert \<noteq> None
                 then (case execute_after_delete of
                         None \<Rightarrow> py_raise (TypeError (CHR 0x27 # ''NoneType'' @ CHR 0x27 # '' object is not callable''))
                       | Some hook \<Rightarrow> hook ids)
                 else py_return ())"
    using assms by (auto simp: nc_raise nc_return split: option.splits)
  show ?case
    unfolding p delete_sub_objects.simps
    by (intro nc_and_then nc_delete_object hook Cons.IH)
qed

lemma commits_once_commit: "commits_once_at_end (session_commit E)"
  unfolding commits_once_at_end_def
proof
  fix s
  show "\<exists>evs. Commit \<notin> set evs
            \<and> (case session_commit E s of
                  (Inr u, s') \<Rightarrow> trace s' = trace s @ evs @ [Commit] \<and> durable s' = current s'
                | (Inl e, s') \<Rightarrow> trace s' = trace s @ evs \<and> durable s' = durable s)"
    by (rule exI[of _ "[]"]) (simp add: session_commit_def split: option.splits)
qed

lemma commits_once_and_then:
  assumes "issues_no_commit m" and "\<And>x. commits_once_at_end (f x)"
  shows "commits_once_at_end (and_then m f)"
  unfolding commits_once_at_end_def
proof
  fix s
  obtain evs where m: "trace (snd (m s)) = trace s @ evs" "Commit \<notin> set evs"
    "durable (snd (m s)) = durable s"
    using assms(1) unfolding issues_no_commit_def by blast
  show "\<exists>evs. Commit \<notin> set evs
            \<and> (case and_then m f s of
                  (Inr u, s') \<Rightarrow> trace s' = trace s @ evs @ [Commit] \<and> durable s' = current s'
                | (Inl e, s') \<Rightarrow> trace s' = trace s @ evs \<and> durable s' = durable s)"
  proof (cases "m s")
    case (Pair r s1)
    show ?thesis
    proof (cases r)
      case (Inl e)
      with Pair m show ?thesis by (intro exI[of _ evs]) (simp add: and_then_def)
    next
      case (Inr x)
      obtain evs2 where f: "Commit \<notin> set evs2"
        "case f x s1 of
           (Inr u, s') \<Rightarrow> trace s' = trace s1 @ evs2 @ [Commit] \<and> durable s' = current s'
         | (Inl e, s') \<Rightarrow> trace s' = trace s1 @ evs2 \<and> durable s' = durable s1"
        using assms(2)[of x, unfolded commits_once_at_end_def, rule_format, of s1]
        by (elim exE conjE)
      have eq: "and_then m f s = f x s1"
        using Pair Inr by (simp add: and_then_def)
      have s1: "trace s1 = trace s @ evs" "durable s1 = durable s"
        using Pair m by simp_all
      obtain r2 s2 where r2: "f x s1 = (r2, s2)" by (cases "f x s1")
      show ?thesis
      proof (cases r2)
        case (Inl e)
        with f r2 s1 m(2) eq show ?thesis
          by (intro exI[of _ "evs @ evs2"]) simp
      next
        case (Inr u)
        with f r2 s1 m(2) eq show ?thesis
          by (intro exI[of _ "evs @ evs2"]) simp
      qed
    qed
  qed
qed

text \<open>
  C8. With hooks that issue no commit of their own, every call of the batch upsert either
  returns, and then the commit is the last event it issued and the only commit, after the
  deletions, the insert of the primary record, the inserts of the dependent collections
  and the post-insert hook; or raises, and then it has issued no commit and the committed
  state is unchanged.
\<close>

theorem upsert_procedure_commits_once_at_end:
  assumes "case execute_after_insert of None \<Rightarrow> True | Some hook \<Rightarrow> issues_no_commit hook"
    and "case execute_after_delete of None \<Rightarrow> True
         | Some hook \<Rightarrow> \<forall>ids. issues_no_commit (hook ids)"
  shows "\<exists>evs. Commit \<notin> set evs
            \<and> (case upsert_procedure E main_model object_to_insert sub_object_models
                      sub_obj_parent_columns id_column do_update execute_after_insert
                      execute_after_delete s of
                  (Inr u, s') \<Rightarrow> trace s' = trace s @ evs @ [Commit] \<and> durable s' = current s'
                | (Inl e, s') \<Rightarrow> trace s' = trace s @ evs \<and> durable s' = durable s)"
proof -
  have del: "issues_no_commit
          (if do_update
           then (case object_to_insert of
                   ObjectList objs \<Rightarrow> py_raise (AttributeError (CHR 0x27 # ''list'' @ CHR 0x27 # '' object has no attribute ''
                               @ CHR 0x27 # ''get'' @ [CHR 0x27]))
                 | OneObject obj \<Rightarrow>
                     (let updated_ids = [dict_get obj id_column (PStr [])]
                      in delete_sub_objects E updated_ids main_model sub_obj_parent_columns
                           execute_after_insert execute_after_delete sub_object_models))
           else py_return ())"
  proof (cases do_update)
    case False
    then show ?thesis by (simp add: nc_return)
  next
    case True
    show ?thesis
    proof (cases object_to_insert)
      case (OneObject obj)
      show ?thesis
        unfolding OneObject object_to_insert.case Let_def
        using True nc_delete_sub_objects[OF assms(2)] by simp
    next
      case (ObjectList objs)
      show ?thesis
        unfolding ObjectList object_to_insert.case
        using True by (simp add: nc_raise)
    qed
  qed
  have hook: "issues_no_commit (case execute_after_insert of None \<Rightarrow> py_return () | Some hook \<Rightarrow> hook)"
    using assms(1) by (auto simp: nc_return split: option.splits)
  have "commits_once_at_end
          (upsert_procedure E main_model object_to_insert sub_object_models
             sub_obj_parent_columns id_column do_update execute_after_insert
             execute_after_delete)"
    unfolding upsert_procedure_def
    by (intro commits_once_and_then del nc_multiple_insert_procedure hook commits_once_commit)
  from this[unfolded commits_once_at_end_def, rule_format, of s] show ?thesis .
qed


text \<open>
  An upsert that returns, and one whose insert of the primary record meets a unique
  violation.
\<close>

theorem upsert_procedure_commits_once_at_end_witness:
  "(\<exists>evs. Commit \<notin> set evs
       \<and> trace (snd (upsert_procedure quiet_engine (AxeEf_model example_names) example_payload
                        [(''sections'', AxeEfSection_model)] None ''id'' True
                        (Some (example_hook [])) (Some example_hook) example_session))
           = evs @ [Commit])
   \<and> (\<exists>evs. Commit \<notin> set evs
       \<and> trace (snd (upsert_procedure (failing_engine UniqueViolation)
                        (AxeEf_model example_names) example_payload
                        [(''sections'', AxeEfSection_model)] None ''id'' False
                        (Some (example_hook [])) (Some example_hook) example_session))
           = evs)"
proof -
  have h1: "case Some (example_hook []) of None \<Rightarrow> True
            | Some hook \<Rightarrow> issues_no_commit hook"
    by (simp add: example_hook_def nc_execute)
  have h2: "case Some example_hook of None \<Rightarrow> True
            | Some hook \<Rightarrow> \<forall>ids. issues_no_commit (hook ids)"
    by (simp add: example_hook_def nc_execute)
  have r1: "fst (upsert_procedure quiet_engine (AxeEf_model example_names) example_payload
                   [(''sections'', AxeEfSection_model)] None ''id'' True
                   (Some (example_hook [])) (Some example_hook) example_session) = Inr ()"
    by code_simp
  have r2: "fst (upsert_procedure (failing_engine UniqueViolation) (AxeEf_model example_names)
                   example_payload [(''sections'', AxeEfSection_model)] None ''id'' False
                   (Some (example_hook [])) (Some example_hook) example_session)
              = Inl (HTTPException 409
                  ''Object axe_ef with label Axe 1 already exists.Please try again with another label.'')"
    by code_simp
  have t: "trace example_session = []" by (simp add: example_session_def)
  obtain s1 where u1:
    "upsert_procedure quiet_engine (AxeEf_model example_names) example_payload
       [(''sections'', AxeEfSection_model)] None ''id'' True
       (Some (example_hook [])) (Some example_hook) example_session = (Inr (), s1)"
    using r1 by (metis prod.collapse)
  obtain s2 where u2:
    "upsert_procedure (failing_engine UniqueViolation) (AxeEf_model example_names)
       example_payload [(''sections'', AxeEfSection_model)] None ''id'' False
       (Some (example_hook [])) (Some example_hook) example_session
     = (Inl (HTTPException 409
          ''Object axe_ef with label Axe 1 already exists.Please try again with another label.''),
        s2)"
    using r2 by (metis prod.collapse)
  from upsert_procedure_commits_once_at_end[OF h1 h2,
         where E = quiet_engine and main_model = "AxeEf_model example_names"
           and object_to_insert = example_payload
           and sub_object_models = "[(''sections'', AxeEfSection_model)]"
           and sub_obj_parent_columns = None and id_column = "''id''" and do_update = True
           and s = example_session]
  have a: "\<exists>evs. Commit \<notin> set evs \<and> trace s1 = evs @ [Commit]"
    unfolding u1 t by auto
  from upsert_procedure_commits_once_at_end[OF h1 h2,
         where E = "failing_engine UniqueViolation" and main_model = "AxeEf_model example_names"
           and object_to_insert = example_payload
           and sub_object_models = "[(''sections'', AxeEfSection_model)]"
           and sub_obj_parent_columns = None and id_column = "''id''" and do_update = False
           and s = example_session]
  have b: "\<exists>evs. Commit \<notin> set evs \<and> trace s2 = evs"
    unfolding u2 t by auto
  from a b show ?thesis unfolding u1 u2 by simp
qed

lemma delete_sub_objects_ignores_hook:
  "delete_sub_objects E ids mm cols None execute_after_delete subs
     = delete_sub_objects E ids mm cols None None subs"
  by (induction subs) auto

lemma upsert_procedure_ignores_post_delete_hook:
  "upsert_procedure E mm payload subs cols idc du None (Some hook)
     = upsert_procedure E mm payload subs cols idc du None None"
  by (cases payload)
     (simp_all add: upsert_procedure_def Let_def
        delete_sub_objects_ignores_hook[of _ _ _ _ "Some hook"])

text \<open>
  C4 on the code. An update-mode upsert with a post-delete hook and no post-insert hook:
  the dependent rows are deleted and the hook is not called (the trace holds no statement
  of the hook). With a post-insert hook supplied as well, the post-delete hook does run
  after the deletion.
\<close>

theorem post_delete_hook_skipped_without_post_insert_hook:
  "fst (upsert_procedure quiet_engine (AxeEf_model example_names) example_payload
          [(''sections'', AxeEfSection_model)] None ''id'' True None (Some example_hook)
          example_session) = Inr ()
   \<and> trace (snd (upsert_procedure quiet_engine (AxeEf_model example_names) example_payload
          [(''sections'', AxeEfSection_model)] None ''id'' True None (Some example_hook)
          example_session))
       = [Execute (Delete ''axe_ef_section'' ''axe_ef_id'' [PUuid ''x1'']),
          Execute (Insert ''axe_ef'' (PDict [(''id'', PUuid ''x1''), (''libelle'', PStr ''Axe 1'')])
                     (Some ([''id''], [''libelle'']))),
          Execute (Insert ''axe_ef_section''
                     (PList [PDict [(''axe_ef_id'', PUuid ''x1''), (''section_axe_onb'', PInt 1)]])
                     None),
          Commit]
   \<and> trace (snd (upsert_procedure quiet_engine (AxeEf_model example_names) example_payload
          [(''sections'', AxeEfSection_model)] None ''id'' True (Some (example_hook []))
          (Some example_hook) example_session))
       = [Execute (Delete ''axe_ef_section'' ''axe_ef_id'' [PUuid ''x1'']),
          Execute (Delete ''hook'' ''id'' [PUuid ''x1'']),
          Execute (Insert ''axe_ef'' (PDict [(''id'', PUuid ''x1''), (''libelle'', PStr ''Axe 1'')])
                     (Some ([''id''], [''libelle'']))),
          Execute (Insert ''axe_ef_section''
                     (PList [PDict [(''axe_ef_id'', PUuid ''x1''), (''section_axe_onb'', PInt 1)]])
                     None),
          Execute (Delete ''hook'' ''id'' []),
          Commit]"
  by code_simp


section \<open>Properties of the list query\<close>

lemma model_validate_each_Inr:
  assumes "list_all (\<lambda>row. fst (snd row) \<noteq> None) rows"
  shows "\<exists>items. model_validate_each rows = Inr items
           \<and> map AxeEfGetAll.libelle items = map (\<lambda>row. AxeEf_row.libelle (fst row)) rows
           \<and> map (\<lambda>i. (AxeEfGetAll.id' i, lvpks i)) items
               = map (\<lambda>row. (AxeEf_row.id' (fst row), snd (snd row))) rows"
  using assms
proof (induction rows)
  case Nil
  show ?case by simp
next
  case (Cons row rows)
  then obtain items where items: "model_validate_each rows = Inr items"
    "map AxeEfGetAll.libelle items = map (\<lambda>row. AxeEf_row.libelle (fst row)) rows"
    "map (\<lambda>i. (AxeEfGetAll.id' i, lvpks i)) items
               = map (\<lambda>row. (AxeEf_row.id' (fst row), snd (snd row))) rows"
    by auto
  obtain a updated agg where row: "row = (a, updated, agg)" by (cases row)
  from Cons.prems row obtain t where t: "updated = Some t" by auto
  show ?case
    using items row t by (simp add: model_validate_def)
qed

lemma lvpks_of_member:
  "x \<in> set (lvpks_of d a) \<longleftrightarrow>
     (\<exists>l \<in> set (axe_ef_section_rows d). \<exists>v \<in> set (lvpk_section_axe_rows d).
        axe_ef_id l = AxeEf_row.id' a
        \<and> LvpkSectionAxe.section_axe_onb v = AxeEfSection.section_axe_onb l
        \<and> x = PDict [(''ligne'', ligne v), (''voie'', voie v),
                      (''pk_debut'', pk_debut v), (''pk_fin'', pk_fin v)])"
  by (auto simp: lvpks_of_def)

text \<open>
  C9. On a database where every axis carries its creation timestamp, get-all returns one
  item per axis that has mapped sections, with the aggregated LVPK objects of that axis,
  ordered by label; and the count is the number of all axis rows, whatever the number of
  items.
\<close>

theorem get_all_axes_ef_count_is_total:
  assumes "list_all (\<lambda>a. AxeEf_row.created_at a \<noteq> None) (axe_ef_rows (current s))"
  shows "\<exists>items.
           get_all_axes_ef s = (Inr (items, length (axe_ef_rows (current s))), s)
         \<and> sorted (map AxeEfGetAll.libelle items)
         \<and> length items
             = length (filter (\<lambda>a. lvpks_of (current s) a \<noteq> []) (axe_ef_rows (current s)))
         \<and> set (map (\<lambda>i. (AxeEfGetAll.id' i, lvpks i)) items)
             = set (map (\<lambda>a. (AxeEf_row.id' a, lvpks_of (current s) a))
                      (filter (\<lambda>a. lvpks_of (current s) a \<noteq> []) (axe_ef_rows (current s))))
         \<and> length items \<le> length (axe_ef_rows (current s))"
proof -
  let ?d = "current s"
  let ?joined = "filter (\<lambda>a. lvpks_of ?d a \<noteq> []) (axe_ef_rows ?d)"
  have set_q: "set (get_all_query ?d)
      = (\<lambda>a. (a, (case AxeEf_row.modified_at a of Some t \<Rightarrow> Some t | None \<Rightarrow> AxeEf_row.created_at a),
                lvpks_of ?d a)) ` set ?joined"
    by (simp add: get_all_query_def)
  have "list_all (\<lambda>row. fst (snd row) \<noteq> None) (get_all_query ?d)"
    using assms unfolding list_all_iff set_q
    by (auto split: option.splits)
  from model_validate_each_Inr[OF this] obtain items where items:
    "model_validate_each (get_all_query ?d) = Inr items"
    "map AxeEfGetAll.libelle items = map (\<lambda>row. AxeEf_row.libelle (fst row)) (get_all_query ?d)"
    "map (\<lambda>i. (AxeEfGetAll.id' i, lvpks i)) items
       = map (\<lambda>row. (AxeEf_row.id' (fst row), snd (snd row))) (get_all_query ?d)"
    by blast
  have res: "get_all_axes_ef s = (Inr (items, length (axe_ef_rows ?d)), s)"
    using items(1) by (simp add: get_all_axes_ef_def count_query_def)
  have srt: "sorted (map AxeEfGetAll.libelle items)"
    unfolding items(2) get_all_query_def by (rule sorted_sort_key)
  have len: "length items = length ?joined"
    using arg_cong[OF items(2), of length] by (simp add: get_all_query_def)
  have st: "set (map (\<lambda>i. (AxeEfGetAll.id' i, lvpks i)) items)
             = set (map (\<lambda>a. (AxeEf_row.id' a, lvpks_of ?d a)) ?joined)"
    unfolding items(3) by (simp add: set_q image_image)
  have "length ?joined \<le> length (axe_ef_rows ?d)" by simp
  with res srt len st show ?thesis by auto
qed

text \<open>The example database: three axes, two of them with mapped sections.\<close>

theorem get_all_axes_ef_count_is_total_witness:
  "list_all (\<lambda>a. AxeEf_row.created_at a \<noteq> None) (axe_ef_rows (current example_session))
   \<and> (\<exists>items. get_all_axes_ef example_session = (Inr (items, 3), example_session)
         \<and> map AxeEfGetAll.libelle items = [''Axe 0'', ''Axe 1''])"
proof -
  have h: "list_all (\<lambda>a. AxeEf_row.created_at a \<noteq> None) (axe_ef_rows (current example_session))"
    by (simp add: example_session_def example_database_def)
  have v: "map AxeEfGetAll.libelle (fst (projr (fst (get_all_axes_ef example_session))))
             = [''Axe 0'', ''Axe 1'']"
    by code_simp
  have n: "length (axe_ef_rows (current example_session)) = 3"
    by (simp add: example_session_def example_database_def)
  from get_all_axes_ef_count_is_total[OF h] obtain items where
    "get_all_axes_ef example_session
       = (Inr (items, length (axe_ef_rows (current example_session))), example_session)"
    by blast
  with v n h show ?thesis by simp
qed

end
